theory Spec2Isabelle
  imports Complex_Main "HOL-Library.Sublist" "HOL-Library.Multiset"
begin

section \<open>Python exceptions as values\<close>

text \<open>
  Both scripts abort on the first exception. Every raise of the source, and every
  failing dictionary lookup, attribute access, index or division, is a branch of the
  model that returns \<open>Inl e\<close>.
\<close>

datatype error =
    KeyError string
  | AttributeError string
  | IndexError string
  | ValueError string
  | NotImplementedError string
  | RuntimeError string
  | ZeroDivisionError

definition and_then :: "error + 'a \<Rightarrow> ('a \<Rightarrow> error + 'b) \<Rightarrow> error + 'b" where
  "and_then r f = (case r of Inl e \<Rightarrow> Inl e | Inr x \<Rightarrow> f x)"

definition lookup :: "string \<Rightarrow> 'a option \<Rightarrow> error + 'a" where
  "lookup k v = (case v of None \<Rightarrow> Inl (KeyError k) | Some x \<Rightarrow> Inr x)"

definition floordiv :: "int \<Rightarrow> int \<Rightarrow> error + int" where
  "floordiv a b = (if b = 0 then Inl ZeroDivisionError else Inr (a div b))"

text \<open>
  The numbers of a scheduler section are Python ints or floats (Megatron-LM writes a
  float \<open>warmup_steps\<close> when the warmup is given as a fraction). A finite float is
  kept as the rational it denotes; \<open>nan\<close> and the infinities do not occur as step
  counts. \<open>int(x)\<close> truncates a float towards zero. \<open>x // b\<close> with an int \<open>b\<close>
  is the floor of the quotient, an int for an int \<open>x\<close> and a float for a float
  \<open>x\<close>, and raises on \<open>b = 0\<close>; \<open>x + y\<close> is a float as soon as one side is.
  Below \<open>2^53\<close> in magnitude, where step counts live, these float results are exact.
\<close>

datatype pynum = PyInt int | PyFloat rat

definition py_int :: "pynum \<Rightarrow> int" where
  "py_int x = (case x of PyInt i \<Rightarrow> i | PyFloat q \<Rightarrow> (if 0 \<le> q then \<lfloor>q\<rfloor> else \<lceil>q\<rceil>))"

definition py_floordiv :: "pynum \<Rightarrow> int \<Rightarrow> error + pynum" where
  "py_floordiv x b =
     (if b = 0 then Inl ZeroDivisionError
      else (case x of
              PyInt a \<Rightarrow> Inr (PyInt (a div b))
            | PyFloat q \<Rightarrow> Inr (PyFloat (of_int \<lfloor>q / of_int b\<rfloor>))))"

definition py_add :: "pynum \<Rightarrow> pynum \<Rightarrow> pynum" where
  "py_add x y =
     (case (x, y) of
        (PyInt a, PyInt b) \<Rightarrow> PyInt (a + b)
      | (PyInt a, PyFloat q) \<Rightarrow> PyFloat (of_int a + q)
      | (PyFloat p, PyInt b) \<Rightarrow> PyFloat (p + of_int b)
      | (PyFloat p, PyFloat q) \<Rightarrow> PyFloat (p + q))"

fun map_e :: "('a \<Rightarrow> error + 'b) \<Rightarrow> 'a list \<Rightarrow> error + 'b list" where
  "map_e f [] = Inr []"
| "map_e f (x # xs) =
     (case f x of
        Inl e \<Rightarrow> Inl e
      | Inr y \<Rightarrow> (case map_e f xs of Inl e \<Rightarrow> Inl e | Inr ys \<Rightarrow> Inr (y # ys)))"

section \<open>megatron\_lm\_ckpt\_to\_nemo.py: add\_optimizer\_state\<close>

text \<open>
  The source checkpoint is a dictionary; each key the function reads is an optional
  field here (\<open>None\<close>: the key is absent). Learning rates are opaque values of type
  \<open>'v\<close> (they are only copied), the optimizer's per-parameter state and the fp32
  shadow parameters are opaque values of type \<open>'p\<close>. The step counts of the
  scheduler section are Python numbers, the global batch size is an int.
\<close>

type_synonym 'v param_group = "string \<rightharpoonup> 'v"

record ('v, 'p) opt_state =
  param_groups :: "'v param_group list option"
  state :: 'p

record ('v, 'p) optimizer_section =
  os_optimizer :: "('v, 'p) opt_state option"
  os_fp32_from_fp16_params :: "'p option"

record 'v scheduler =
  max_lr :: "'v option"
  min_lr :: "'v option"
  decay_steps :: "pynum option"
  warmup_steps :: "pynum option"
  num_steps :: "pynum option"

record megatron_args =
  global_batch_size :: "int option"

record ('v, 'p) lm_checkpoint =
  lm_optimizer :: "('v, 'p) optimizer_section option"
  lm_iteration :: "int option"
  lm_lr_scheduler :: "'v scheduler option"
  lm_args :: "megatron_args option"

text \<open>
  An element of \<open>new_checkpoint['optimizer_states']\<close>: with \<open>megatron_amp_o2\<close> the
  dictionary \<open>opt_dict\<close> (key \<open>optimizer\<close>, and \<open>fp32_from_fp16_params\<close> when the
  source has it), otherwise the optimizer state itself, which has no key \<open>optimizer\<close>.
\<close>

datatype ('v, 'p) opt_entry =
    OptDict "'p option" "('v, 'p) opt_state"
  | OptState "('v, 'p) opt_state"

record 'v content =
  c_max_steps :: pynum
  c_warmup_steps :: int
  c_constant_steps :: int
  c_decay_steps :: int
  c_min_lr :: 'v
  c_base_lrs :: "'v list"
  c_last_epoch :: int
  c_last_lr :: "'v list option"
  c_step_count :: int
  c_verbose :: bool
  c_get_lr_called_within_step :: bool

record ('v, 'p) new_checkpoint =
  optimizer_states :: "('v, 'p) opt_entry list option"
  global_step :: "int option"
  epoch :: "int option"
  lr_schedulers :: "'v content list option"

text \<open>
  Lines 183-197. The loop \<open>for param_group in opt_state['param_groups']\<close> looks
  \<open>param_groups\<close> up first and reads \<open>sched['max_lr']\<close> once per group, so a
  missing \<open>max_lr\<close> raises only when there is a group.
\<close>

definition set_initial_lrs ::
  "'v scheduler \<Rightarrow> ('v, 'p) opt_state \<Rightarrow> error + ('v, 'p) opt_state" where
  "set_initial_lrs sched opt =
     and_then (lookup ''param_groups'' (param_groups opt)) (\<lambda>pgs.
     and_then (map_e (\<lambda>pg. and_then (lookup ''max_lr'' (max_lr sched))
                               (\<lambda>m. Inr (pg(''initial_lr'' \<mapsto> m)))) pgs) (\<lambda>pgs'.
     Inr (opt\<lparr>param_groups := Some pgs'\<rparr>)))"

definition add_optimizer ::
  "('v, 'p) lm_checkpoint \<Rightarrow> ('v, 'p) new_checkpoint \<Rightarrow> bool
     \<Rightarrow> error + ('v, 'p) new_checkpoint" where
  "add_optimizer lm new megatron_amp_o2 =
     (case lm_optimizer lm of
        None \<Rightarrow> Inr new
      | Some sec \<Rightarrow>
          (case os_optimizer sec of
             None \<Rightarrow> Inr new
           | Some opt \<Rightarrow>
               if megatron_amp_o2 then
                 and_then (case lm_lr_scheduler lm of
                             None \<Rightarrow> Inr opt
                           | Some sched \<Rightarrow> set_initial_lrs sched opt) (\<lambda>opt'.
                 Inr (new\<lparr>optimizer_states :=
                        Some [OptDict (os_fp32_from_fp16_params sec) opt']\<rparr>))
               else Inr (new\<lparr>optimizer_states := Some [OptState opt]\<rparr>)))"

text \<open>Lines 199-201.\<close>

definition add_step ::
  "('v, 'p) lm_checkpoint \<Rightarrow> ('v, 'p) new_checkpoint \<Rightarrow> ('v, 'p) new_checkpoint" where
  "add_step lm new =
     (case lm_iteration lm of
        None \<Rightarrow> new
      | Some it \<Rightarrow> new\<lparr>global_step := Some it, epoch := Some 1\<rparr>)"

text \<open>
  \<open>new_checkpoint['optimizer_states'][0]['optimizer']['param_groups']\<close>, lines 213
  and 216.
\<close>

definition new_param_groups ::
  "('v, 'p) new_checkpoint \<Rightarrow> error + 'v param_group list" where
  "new_param_groups new =
     and_then (lookup ''optimizer_states'' (optimizer_states new)) (\<lambda>entries.
     and_then (case entries of
                 [] \<Rightarrow> Inl (IndexError ''list index out of range'')
               | e # _ \<Rightarrow> Inr e) (\<lambda>entry.
     and_then (case entry of
                 OptDict _ opt \<Rightarrow> Inr opt
               | OptState _ \<Rightarrow> Inl (KeyError ''optimizer'')) (\<lambda>opt.
     lookup ''param_groups'' (param_groups opt))))"

definition get_gbs :: "('v, 'p) lm_checkpoint \<Rightarrow> error + int" where
  "get_gbs lm =
     and_then (lookup ''args'' (lm_args lm)) (\<lambda>a.
       case global_batch_size a of
         None \<Rightarrow> Inl (AttributeError ''global_batch_size'')
       | Some g \<Rightarrow> Inr g)"

text \<open>
  Lines 211-219: \<open>base_lrs\<close>, \<open>last_epoch\<close> and \<open>_last_lr\<close> (absent in the
  \<open>else\<close> branch), in the source's evaluation order.
\<close>

definition scheduler_lrs ::
  "('v, 'p) lm_checkpoint \<Rightarrow> 'v scheduler \<Rightarrow> ('v, 'p) new_checkpoint \<Rightarrow> int
     \<Rightarrow> error + ('v list \<times> int \<times> 'v list option)" where
  "scheduler_lrs lm sched new gbs =
     (case lm_optimizer lm of
        Some _ \<Rightarrow>
          and_then (new_param_groups new) (\<lambda>pgs.
          and_then (map_e (\<lambda>i. lookup ''initial_lr'' (i ''initial_lr'')) pgs) (\<lambda>base.
          and_then (lookup ''num_steps'' (num_steps sched)) (\<lambda>n.
          and_then (floordiv (py_int n) gbs) (\<lambda>nq.
          and_then (new_param_groups new) (\<lambda>pgs2.
          and_then (map_e (\<lambda>i. lookup ''lr'' (i ''lr'')) pgs2) (\<lambda>last.
          Inr (base, nq, Some last)))))))
      | None \<Rightarrow>
          and_then (lookup ''max_lr'' (max_lr sched)) (\<lambda>mx.
          and_then (lookup ''num_steps'' (num_steps sched)) (\<lambda>n.
          and_then (floordiv (py_int n) gbs) (\<lambda>nq.
          Inr ([mx], nq, None)))))"

text \<open>
  Lines 203-222: the dictionary \<open>content\<close>. Line 206 divides \<open>sched['warmup_steps']\<close>
  as it is stored (\<open>wf\<close>), line 207 divides \<open>int(sched['warmup_steps'])\<close>
  (\<open>wq\<close>); every other step count goes through \<open>int\<close> first.
\<close>

definition scheduler_content ::
  "('v, 'p) lm_checkpoint \<Rightarrow> 'v scheduler \<Rightarrow> ('v, 'p) new_checkpoint
     \<Rightarrow> error + 'v content" where
  "scheduler_content lm sched new =
     and_then (get_gbs lm) (\<lambda>gbs.
     and_then (lookup ''decay_steps'' (decay_steps sched)) (\<lambda>d.
     and_then (floordiv (py_int d) gbs) (\<lambda>dq.
     and_then (lookup ''warmup_steps'' (warmup_steps sched)) (\<lambda>w.
     and_then (py_floordiv w gbs) (\<lambda>wf.
     and_then (floordiv (py_int w) gbs) (\<lambda>wq.
     and_then (lookup ''min_lr'' (min_lr sched)) (\<lambda>mn.
     and_then (scheduler_lrs lm sched new gbs) (\<lambda>lrs.
     and_then (lookup ''num_steps'' (num_steps sched)) (\<lambda>n.
     and_then (floordiv (py_int n) gbs) (\<lambda>sc.
     Inr \<lparr>c_max_steps = py_add (PyInt dq) wf, c_warmup_steps = wq, c_constant_steps = 0,
          c_decay_steps = dq, c_min_lr = mn, c_base_lrs = fst lrs,
          c_last_epoch = fst (snd lrs), c_last_lr = snd (snd lrs), c_step_count = sc,
          c_verbose = False, c_get_lr_called_within_step = False\<rparr>))))))))))"

text \<open>Lines 202-223.\<close>

definition add_lr_scheduler ::
  "('v, 'p) lm_checkpoint \<Rightarrow> ('v, 'p) new_checkpoint \<Rightarrow> error + ('v, 'p) new_checkpoint" where
  "add_lr_scheduler lm new =
     (case lm_lr_scheduler lm of
        None \<Rightarrow> Inr new
      | Some sched \<Rightarrow>
          and_then (scheduler_content lm sched new) (\<lambda>c.
          Inr (new\<lparr>lr_schedulers := Some [c]\<rparr>)))"

definition add_optimizer_state ::
  "('v, 'p) lm_checkpoint \<Rightarrow> ('v, 'p) new_checkpoint \<Rightarrow> bool
     \<Rightarrow> error + ('v, 'p) new_checkpoint" where
  "add_optimizer_state lm new megatron_amp_o2 =
     and_then (add_optimizer lm new megatron_amp_o2) (\<lambda>new1.
     add_lr_scheduler lm (add_step lm new1))"

text \<open>
  A checkpoint as Megatron-LM saves it, used to run the adapter: one parameter group,
  learning rates written as the decimal literals they print as, 64 sequences per batch,
  and the float \<open>warmup_steps = 3200.0\<close> of a warmup fraction of 0.01.
\<close>

definition example_lm :: "(string, unit) lm_checkpoint" where
  "example_lm =
     \<lparr>lm_optimizer = Some
        \<lparr>os_optimizer = Some \<lparr>param_groups = Some [[''lr'' \<mapsto> ''0.0001'']], state = ()\<rparr>,
         os_fp32_from_fp16_params = None\<rparr>,
      lm_iteration = Some 5000,
      lm_lr_scheduler = Some
        \<lparr>max_lr = Some ''0.00015'', min_lr = Some ''1e-05'', decay_steps = Some (PyInt 320000),
         warmup_steps = Some (PyFloat 3200), num_steps = Some (PyInt 1000)\<rparr>,
      lm_args = Some \<lparr>global_batch_size = Some 64\<rparr>\<rparr>"

text \<open>
  The target checkpoint as \<open>load_from_checkpoint\<close> passes it: none of the four keys
  is present yet.
\<close>

definition fresh_checkpoint :: "(string, unit) new_checkpoint" where
  "fresh_checkpoint =
     \<lparr>optimizer_states = None, global_step = None, epoch = None, lr_schedulers = None\<rparr>"

section \<open>Python strings\<close>

text \<open>
  \<open>s.find(sub)\<close>: the lowest index at which \<open>sub\<close> occurs in \<open>s\<close>, or \<open>-1\<close>.
\<close>

fun find_str :: "string \<Rightarrow> string \<Rightarrow> int" where
  "find_str [] sub = (if sub = [] then 0 else -1)"
| "find_str (c # cs) sub =
     (if prefix sub (c # cs) then 0
      else (let r = find_str cs sub in if r < 0 then -1 else r + 1))"

text \<open>
  \<open>s.replace(old, new)\<close>: every non-overlapping occurrence of \<open>old\<close>, scanning from
  the left, is replaced by \<open>new\<close>; an empty \<open>old\<close> matches before every character
  and at the end.
\<close>

function replace_str :: "string \<Rightarrow> string \<Rightarrow> string \<Rightarrow> string" where
  "replace_str [] old new = (if old = [] then new else [])"
| "replace_str (c # cs) old new =
     (if old = [] then new @ c # replace_str cs old new
      else if prefix old (c # cs) then new @ replace_str (drop (length old) (c # cs)) old new
      else c # replace_str cs old new)"
  by pat_completeness auto
termination
  by (relation "measure (\<lambda>(s, old, new). length s)") auto

section \<open>Tensors\<close>

text \<open>
  A contiguous tensor: its shape and its elements in row-major order. The elements are
  opaque values of type \<open>'a\<close>; the converter only moves them. A well-formed tensor has
  as many elements as the product of its shape.
\<close>

record 'a tensor =
  shape :: "nat list"
  elems :: "'a list"

definition numel :: "'a tensor \<Rightarrow> nat" where
  "numel t = prod_list (shape t)"

section \<open>megatron\_lm\_ckpt\_to\_nemo.py: parse\_weights\<close>

text \<open>
  The nested \<open>OrderedDict\<close> of the source checkpoint's \<open>model\<close> entry: a leaf is a
  tensor, a node lists its items in iteration order.
\<close>

datatype 'a weights = Leaf "'a tensor" | Dict "(string \<times> 'a weights) list"

text \<open>
  Lines 159-164. The translator is a dict, iterated in insertion order. Each rule is
  tested against \<open>key\<close> and replaces in \<open>key\<close>; the result overwrites \<open>new_key\<close>.
\<close>

fun translate_loop :: "(string \<times> string) list \<Rightarrow> string \<Rightarrow> string \<Rightarrow> string" where
  "translate_loop [] key new_key = new_key"
| "translate_loop ((replace_key, repl) # rules) key new_key =
     translate_loop rules key
       (if find_str key replace_key \<ge> 0 then replace_str key replace_key repl else new_key)"

definition translate_key :: "(string \<times> string) list \<Rightarrow> string \<Rightarrow> string" where
  "translate_key translator key = translate_loop translator key key"

text \<open>\<open>converted[final_key] = value\<close> on an \<open>OrderedDict\<close>.\<close>

fun od_set :: "('k \<times> 'v) list \<Rightarrow> 'k \<Rightarrow> 'v \<Rightarrow> ('k \<times> 'v) list" where
  "od_set [] k v = [(k, v)]"
| "od_set ((k', v') # kvs) k v = (if k' = k then (k, v) # kvs else (k', v') # od_set kvs k v)"

text \<open>
  Lines 157-171. The state is the pair of \<open>total[0]\<close> and \<open>converted\<close>, both mutated
  in place by the source.
\<close>

fun parse_weights ::
  "(string \<times> 'a weights) list \<Rightarrow> string \<Rightarrow> nat \<times> (string \<times> 'a tensor) list
     \<Rightarrow> (string \<times> string) list \<Rightarrow> nat \<times> (string \<times> 'a tensor) list" where
  "parse_weights [] parent_key st translator = st"
| "parse_weights ((key, Leaf w) # items) parent_key (total_count, converted) translator =
     parse_weights items parent_key
       (total_count + numel w,
        od_set converted (''model'' @ parent_key @ ''.'' @ translate_key translator key) w)
       translator"
| "parse_weights ((key, Dict d) # items) parent_key st translator =
     parse_weights items parent_key
       (parse_weights d (parent_key @ ''.'' @ translate_key translator key) st translator)
       translator"

text \<open>The translator that \<open>convert\<close> builds for \<open>gpt\<close> and \<open>bert\<close> (lines 410-414).\<close>

definition name_translate :: "(string \<times> string) list" where
  "name_translate =
     [(''transformer'', ''encoder''),
      (''.attention.'', ''.self_attention.''),
      (''word_embeddings_for_head'', ''word_embeddings'')]"

section \<open>Tensor operations of the layout migration\<close>

text \<open>
  \<open>t.view(*dims)\<close> on a contiguous tensor: at most one dimension is \<open>-1\<close> and is
  inferred from the element count; the elements stay in place. Every failure of the
  library is a \<open>RuntimeError\<close>.
\<close>

definition view :: "int list \<Rightarrow> 'a tensor \<Rightarrow> error + 'a tensor" where
  "view dims t =
     (let n = length (elems t);
          newsize = prod_list (map nat (filter (\<lambda>d. d \<noteq> -1) dims))
      in if \<exists>d \<in> set dims. d < -1 then Inl (RuntimeError ''invalid shape dimension'')
         else if length (filter (\<lambda>d. d = -1) dims) > 1
           then Inl (RuntimeError ''only one dimension can be inferred'')
         else if -1 \<in> set dims then
           (if newsize > 0 \<and> n mod newsize = 0
              then Inr (t\<lparr>shape := map (\<lambda>d. if d = -1 then n div newsize else nat d) dims\<rparr>)
            else if n = newsize
              then Inl (RuntimeError ''the unspecified dimension size -1 is ambiguous'')
            else Inl (RuntimeError ''shape is invalid for input size''))
         else if n = newsize then Inr (t\<lparr>shape := map nat dims\<rparr>)
         else Inl (RuntimeError ''shape is invalid for input size''))"

text \<open>
  Row-major addressing: the flat offset of a multi-index, and the multi-index of a
  flat offset.
\<close>

fun ravel :: "nat list \<Rightarrow> nat list \<Rightarrow> nat" where
  "ravel (d # ds) (i # is) = i * prod_list ds + ravel ds is"
| "ravel _ _ = 0"

fun unravel :: "nat list \<Rightarrow> nat \<Rightarrow> nat list" where
  "unravel [] k = []"
| "unravel (d # ds) k = (k div prod_list ds) # unravel ds (k mod prod_list ds)"

definition swap :: "nat \<Rightarrow> nat \<Rightarrow> 'b list \<Rightarrow> 'b list" where
  "swap i j xs = xs[i := xs ! j, j := xs ! i]"

text \<open>
  \<open>t.transpose(d0, d1).contiguous()\<close>: the two axes change places, and the element
  at a multi-index of the result is the element of \<open>t\<close> at the multi-index with the
  two positions exchanged. An axis beyond the rank is the library's \<open>IndexError\<close>.
\<close>

definition transpose_contiguous :: "nat \<Rightarrow> nat \<Rightarrow> 'a tensor \<Rightarrow> error + 'a tensor" where
  "transpose_contiguous d0 d1 t =
     (if d0 < length (shape t) \<and> d1 < length (shape t) then
        (let s' = swap d0 d1 (shape t)
         in Inr \<lparr>shape = s',
                 elems = map (\<lambda>k. elems t ! ravel (shape t) (swap d0 d1 (unravel s' k)))
                           [0 ..< prod_list s']\<rparr>)
      else Inl (IndexError ''Dimension out of range''))"

section \<open>megatron\_lm\_ckpt\_to\_nemo.py: the attention layout migration\<close>

text \<open>Lines 309-318: the loop body of version 0 on one tensor, \<open>np\<close> heads.\<close>

definition migrate_v0 :: "int \<Rightarrow> 'a tensor \<Rightarrow> error + 'a tensor" where
  "migrate_v0 np weight =
     (if length (shape weight) = 2 then
        and_then (view [3, np, -1, int (last (shape weight))] weight) (\<lambda>w1.
        and_then (transpose_contiguous 0 1 w1) (\<lambda>w2.
        view [-1, int (last (shape w2))] w2))
      else
        and_then (view [3, np, -1] weight) (\<lambda>w1.
        and_then (transpose_contiguous 0 1 w1) (\<lambda>w2.
        view [-1] w2)))"

text \<open>Lines 324-333: the loop body of version 1 on one tensor.\<close>

definition migrate_v1 :: "int \<Rightarrow> 'a tensor \<Rightarrow> error + 'a tensor" where
  "migrate_v1 np weight =
     (if length (shape weight) = 2 then
        and_then (view [np, -1, 3, int (last (shape weight))] weight) (\<lambda>w1.
        transpose_contiguous 1 2 w1)
      else
        and_then (view [np, -1, 3] weight) (\<lambda>w1.
        transpose_contiguous 1 2 w1))"

text \<open>
  Lines 295-302. \<open>hparams\<close> is \<open>None\<close> without an hparams file, otherwise the value
  under \<open>cfg.num_attention_heads\<close> if any; \<open>config\<close> is the source checkpoint's
  \<open>config['num-attention-heads']\<close> if any.
\<close>

definition attention_heads :: "int option option \<Rightarrow> int option \<Rightarrow> error + int" where
  "attention_heads hparams config =
     (case hparams of
        Some h \<Rightarrow> lookup ''num_attention_heads'' h
      | None \<Rightarrow>
          (case config of
             Some n \<Rightarrow> Inr n
           | None \<Rightarrow> Inl (ValueError ''need to know number of attention heads'')))"

text \<open>One iteration of the loops at lines 306 and 321.\<close>

definition migrate_entry ::
  "(int \<Rightarrow> 'a tensor \<Rightarrow> error + 'a tensor) \<Rightarrow> int \<Rightarrow> string \<times> 'a tensor
     \<Rightarrow> error + string \<times> 'a tensor" where
  "migrate_entry f np kv =
     (if find_str (fst kv) ''query_key_value'' \<ge> 0
      then and_then (f np (snd kv)) (\<lambda>w. Inr (fst kv, w))
      else Inr kv)"

text \<open>
  Lines 292-333 on the flattened \<open>state_dict\<close>; \<open>checkpoint_version\<close> is the source
  checkpoint's entry of that name, if any.
\<close>

definition attention_layout_migration ::
  "int option \<Rightarrow> int option option \<Rightarrow> int option \<Rightarrow> (string \<times> 'a tensor) list
     \<Rightarrow> error + (string \<times> 'a tensor) list" where
  "attention_layout_migration checkpoint_version hparams config state_dict =
     (let check_point_version = (case checkpoint_version of None \<Rightarrow> 0 | Some v \<Rightarrow> v)
      in if check_point_version < 3 then
           and_then (attention_heads hparams config) (\<lambda>np.
             if check_point_version = 0 then map_e (migrate_entry migrate_v0 np) state_dict
             else if check_point_version = 1 then map_e (migrate_entry migrate_v1 np) state_dict
             else Inr state_dict)
         else Inr state_dict)"

section \<open>megatron\_lm\_ckpt\_to\_nemo.py: megatron\_lm\_inject\_model\_parallel\_rank\<close>

text \<open>
  The functions of Python's \<open>posixpath\<close> that the resolver calls. \<open>dirname\<close> cuts
  after the last slash and then strips trailing slashes, unless the head is slashes
  only; \<open>basename\<close> is what follows the last slash; \<open>join\<close> restarts at an
  absolute second component and inserts a slash only where none is there.
\<close>

definition basename :: "string \<Rightarrow> string" where
  "basename p = rev (takeWhile (\<lambda>c. c \<noteq> CHR ''/'') (rev p))"

definition dirname :: "string \<Rightarrow> string" where
  "dirname p =
     (let head = rev (dropWhile (\<lambda>c. c \<noteq> CHR ''/'') (rev p))
      in if head \<noteq> [] \<and> \<not> list_all (\<lambda>c. c = CHR ''/'') head
         then rev (dropWhile (\<lambda>c. c = CHR ''/'') (rev head))
         else head)"

definition join :: "string \<Rightarrow> string \<Rightarrow> string" where
  "join a b =
     (if prefix ''/'' b then b
      else if a = [] \<or> suffix ''/'' a then a @ b
      else a @ ''/'' @ b)"

text \<open>
  The format specifications \<open>:02d\<close> and \<open>:03d\<close> of the f-strings at lines 371 and
  373: decimal digits, padded with zeros after the sign up to the width.
\<close>

function decimal :: "nat \<Rightarrow> string" where
  "decimal n =
     (if n < 10 then [''0123456789'' ! n]
      else decimal (n div 10) @ [''0123456789'' ! (n mod 10)])"
  by pat_completeness auto
termination
  by (relation "measure (\<lambda>n. n)") auto

declare decimal.simps [simp del]

definition format_d :: "nat \<Rightarrow> int \<Rightarrow> string" where
  "format_d width i =
     (if i < 0
      then ''-'' @ replicate (width - 1 - length (decimal (nat (- i)))) CHR ''0''
             @ decimal (nat (- i))
      else replicate (width - length (decimal (nat i))) CHR ''0'' @ decimal (nat i))"

text \<open>The fields of the \<open>AppState\<close> singleton that the resolver reads.\<close>

record app_state =
  model_parallel_size :: "int option"
  pipeline_model_parallel_size :: "int option"
  tensor_model_parallel_rank :: int
  pipeline_model_parallel_rank :: int

text \<open>
  Modelled from the spec: \<open>uninject_model_parallel_rank\<close> of \<open>nemo.utils.model_utils\<close>
  is imported at line 58 and its source is not part of the two files. The spec says
  of it only that the resolver "must first strip any pre-existing rank segment", the
  rank segment being the directory \<open>mp_rank_...\<close> that the resolver inserts between
  the directory and the file name. So: when the directory that holds the file is
  named \<open>mp_rank_...\<close>, that directory is removed from the path; any other path is
  returned as it is.
\<close>

definition uninject_model_parallel_rank :: "string \<Rightarrow> string" where
  "uninject_model_parallel_rank filepath =
     (if prefix ''mp_rank_'' (basename (dirname filepath))
      then join (dirname (dirname filepath)) (basename filepath)
      else filepath)"

text \<open>
  Lines 357-376. The helper that strips the rank is the parameter \<open>uninject\<close>; the
  resolver of the repository is the instance with \<open>uninject_model_parallel_rank\<close>.
\<close>

definition inject_with :: "(string \<Rightarrow> string) \<Rightarrow> app_state \<Rightarrow> string \<Rightarrow> string" where
  "inject_with uninject app_state filepath0 =
     (let filepath = uninject filepath0
      in if (case model_parallel_size app_state of None \<Rightarrow> False | Some n \<Rightarrow> n > 1) then
           (if (case pipeline_model_parallel_size app_state of
                  None \<Rightarrow> True | Some n \<Rightarrow> n = 1)
            then dirname filepath @ ''/mp_rank_''
                   @ format_d 2 (tensor_model_parallel_rank app_state)
                   @ ''/'' @ basename filepath
            else dirname filepath @ ''/mp_rank_''
                   @ format_d 2 (tensor_model_parallel_rank app_state) @ ''_''
                   @ format_d 3 (pipeline_model_parallel_rank app_state)
                   @ ''/'' @ basename filepath)
         else filepath)"

definition megatron_lm_inject_model_parallel_rank :: "app_state \<Rightarrow> string \<Rightarrow> string" where
  "megatron_lm_inject_model_parallel_rank =
     inject_with uninject_model_parallel_rank"

section \<open>noisy\_channel\_reranking.py\<close>

text \<open>
  \<open>line.strip()\<close> removes leading and trailing whitespace; of the code points below
  256, the whitespace characters of Python are 9 to 13, 28 to 32, 133 and 160.
  \<open>s.split(sep)\<close> with a one-character separator cuts at every occurrence and
  returns at least one field.
\<close>

definition is_space :: "char \<Rightarrow> bool" where
  "is_space c = ((of_char c :: nat) \<in> {9, 10, 11, 12, 13, 28, 29, 30, 31, 32, 133, 160})"

definition strip :: "string \<Rightarrow> string" where
  "strip s = rev (dropWhile is_space (rev (dropWhile is_space s)))"

fun split_on :: "char \<Rightarrow> string \<Rightarrow> string list" where
  "split_on sep [] = [[]]"
| "split_on sep (c # cs) =
     (if c = sep then [] # split_on sep cs
      else (case split_on sep cs of
              [] \<Rightarrow> [[c]]
            | w # ws \<Rightarrow> (c # w) # ws))"

text \<open>\<open>line.strip().split('\t')\<close>, lines 213 and 264.\<close>

definition split_fields :: "string \<Rightarrow> string list" where
  "split_fields line = split_on (CHR 0x09) (strip line)"

text \<open>The command-line arguments that decide which inputs the script reads.\<close>

record ncr_args =
  reverse_model :: "string option"
  language_model :: "string option"
  srctext :: "string option"
  cached_score_file :: "string option"
  beam_size :: int
  write_scores :: bool

text \<open>
  The model loads of lines 163 and 167, the only input or output before line 210,
  are recorded in a trace. Whether \<open>restore_from\<close> raises is decided outside the
  script: \<open>nmt_ok\<close> and \<open>lm_ok\<close> say for which paths it returns, and its
  exception, whatever its class, is written \<open>RuntimeError ''restore_from''\<close>.
\<close>

datatype io_event = RestoreNMT string | RestoreLM "string option"

fun restore_reverse_models ::
  "(string \<Rightarrow> bool) \<Rightarrow> string list \<Rightarrow> io_event list \<Rightarrow> io_event list \<times> (error + unit)" where
  "restore_reverse_models nmt_ok [] trace = (trace, Inr ())"
| "restore_reverse_models nmt_ok (model_path # paths) trace =
     (if \<not> suffix ''.nemo'' model_path
        then (trace, Inl (NotImplementedError
               (''Only support .nemo files, but got: '' @ model_path)))
      else if nmt_ok model_path
        then restore_reverse_models nmt_ok paths (trace @ [RestoreNMT model_path])
      else (trace @ [RestoreNMT model_path], Inl (RuntimeError ''restore_from'')))"

text \<open>Lines 158-169.\<close>

definition load_models ::
  "(string \<Rightarrow> bool) \<Rightarrow> (string option \<Rightarrow> bool) \<Rightarrow> ncr_args
     \<Rightarrow> io_event list \<times> (error + unit)" where
  "load_models nmt_ok lm_ok args =
     (case cached_score_file args of
        Some _ \<Rightarrow> ([], Inr ())
      | None \<Rightarrow>
          (case reverse_model args of
             None \<Rightarrow> ([], Inl (AttributeError ''split''))
           | Some paths \<Rightarrow>
               (case restore_reverse_models nmt_ok (split_on CHR '','' paths) [] of
                  (trace, Inl e) \<Rightarrow> (trace, Inl e)
                | (trace, Inr _) \<Rightarrow>
                    if lm_ok (language_model args)
                    then (trace @ [RestoreLM (language_model args)], Inr ())
                    else (trace @ [RestoreLM (language_model args)],
                          Inl (RuntimeError ''restore_from'')))))"

text \<open>
  Lines 158-206: everything \<open>main\<close> does with its arguments before it opens an input
  file, with the trace of the model loads.
\<close>

definition check_args ::
  "(string \<Rightarrow> bool) \<Rightarrow> (string option \<Rightarrow> bool) \<Rightarrow> ncr_args
     \<Rightarrow> io_event list \<times> (error + unit)" where
  "check_args nmt_ok lm_ok args =
     (case load_models nmt_ok lm_ok args of
        (trace, Inl e) \<Rightarrow> (trace, Inl e)
      | (trace, Inr _) \<Rightarrow>
          if srctext args \<noteq> None \<and> cached_score_file args \<noteq> None
            then (trace, Inl (ValueError
                   ''Only one of --srctext or --cached_score_file must be provided.''))
          else if srctext args = None \<and> cached_score_file args = None
            then (trace, Inl (ValueError
                   ''Neither --srctext nor --cached_score_file were provided.''))
          else if cached_score_file args \<noteq> None \<and> write_scores args
            then (trace, Inl (ValueError
                   ''--write_scores cannot be provided with a cached score file.''))
          else if cached_score_file args \<noteq> None \<and> reverse_model args \<noteq> None
            then (trace, Inl (ValueError
                   (''--reverse_model cannot be provided with a cached score file ''
                    @ ''since it assumes reverse scores already present in the cached file.'')))
          else if cached_score_file args \<noteq> None \<and> language_model args \<noteq> None
            then (trace, Inl (ValueError
                   (''--language_model cannot be provided with a cached score file since ''
                    @ ''it assumes language model scores already present in the cached file.'')))
          else (trace, Inr ()))"

text \<open>
  Lines 263-282, the loop over the lines of the cached score file. The state is
  \<open>src_text\<close>, the records of the window being filled, and \<open>tgt_text\<close>, the
  translations selected so far. Lines 272-279 parse the scores and lengths with
  \<open>float\<close>, fuse them and take \<open>np.argmax\<close>: that is the parameter \<open>pick\<close>, which
  returns the index of the selected record or the exception raised on the way.
\<close>

definition field_count_message :: string where
  "field_count_message =
     ''All lines did not contain exactly 5 fields. Format - src_txt '' @ [CHR 0x09]
       @ '' tgt_text '' @ [CHR 0x09] @ '' forward_score '' @ [CHR 0x09]
       @ '' reverse_score '' @ [CHR 0x09] @ '' lm_score '' @ [CHR 0x09]
       @ '' src_len '' @ [CHR 0x09] @ '' tgt_len''"

fun cached_loop ::
  "(string list list \<Rightarrow> error + nat) \<Rightarrow> int \<Rightarrow> string list \<Rightarrow> string list list
     \<Rightarrow> string list \<Rightarrow> error + string list" where
  "cached_loop pick beam [] src_text tgt_text = Inr tgt_text"
| "cached_loop pick beam (line # lines) src_text tgt_text =
     (let src_text' = src_text @ [split_fields line]
      in if int (length src_text') = beam then
           if \<not> list_all (\<lambda>item. length item = 7) src_text'
             then Inl (IndexError field_count_message)
           else
             (case pick src_text' of
                Inl e \<Rightarrow> Inl e
              | Inr i \<Rightarrow>
                  if i < length src_text'
                  then cached_loop pick beam lines []
                         (tgt_text @ [map (\<lambda>item. item ! 1) src_text' ! i])
                  else Inl (IndexError ''list index out of range''))
         else cached_loop pick beam lines src_text' tgt_text)"

text \<open>
  Lines 261-286: the translations written to \<open>tgtout\<close>, one per line, for the lines
  of the cached score file. The output file is opened after the loop, so a failure
  writes nothing.
\<close>

definition rerank_cached ::
  "(string list list \<Rightarrow> error + nat) \<Rightarrow> int \<Rightarrow> string list \<Rightarrow> error + string list" where
  "rerank_cached pick beam lines = cached_loop pick beam lines [] []"

text \<open>
  A line of a score file as it is read: the fields joined by tabs, then a newline.
  Used to write inputs down.
\<close>

fun tsv :: "string list \<Rightarrow> string" where
  "tsv [] = [CHR 0x0A]"
| "tsv [f] = f @ [CHR 0x0A]"
| "tsv (f # g # fs) = f @ [CHR 0x09] @ tsv (g # fs)"

definition score_line_a :: string where
  "score_line_a = tsv [''ein Haus'', ''a house'', ''-2.0'', ''-3.0'', ''-1.0'', ''2'', ''2'']"

definition score_line_b :: string where
  "score_line_b = tsv [''ein Haus'', ''one house'', ''-2.5'', ''-3.5'', ''-1.5'', ''2'', ''2'']"

definition short_line :: string where
  "short_line = tsv [''ein Haus'', ''a home'', ''-2.0'', ''-3.0'', ''-1.0'', ''2'']"

text \<open>Arguments that name neither input, and arguments that name both.\<close>

definition neither_args :: ncr_args where
  "neither_args =
     \<lparr>reverse_model = Some ''reverse.nemo'', language_model = Some ''lm.nemo'',
      srctext = None, cached_score_file = None, beam_size = 4, write_scores = False\<rparr>"

definition both_args :: ncr_args where
  "both_args =
     \<lparr>reverse_model = Some ''reverse.nemo'', language_model = Some ''lm.nemo'',
      srctext = Some ''wmt14.scores'', cached_score_file = Some ''wmt14.ncr.scores'',
      beam_size = 4, write_scores = False\<rparr>"

text \<open>
  The state after \<open>initialize_model_parallel_for_nemo\<close> with tensor parallel size 2
  and pipeline parallel size 1, on the worker of tensor rank 0.
\<close>

definition tensor_parallel_2 :: app_state where
  "tensor_parallel_2 =
     \<lparr>model_parallel_size = Some 2, pipeline_model_parallel_size = Some 1,
      tensor_model_parallel_rank = 0, pipeline_model_parallel_rank = 0\<rparr>"

text \<open>
  A flattened state dictionary with a fused weight, a fused bias and a tensor that is
  not fused, for a model with two attention heads.
\<close>

definition example_state_dict :: "(string \<times> nat tensor) list" where
  "example_state_dict =
     [(''model.language_model.encoder.layers.0.self_attention.query_key_value.weight'',
       \<lparr>shape = [6, 2], elems = [0, 1, 2, 3, 4, 5, 6, 7, 8, 9, 10, 11]\<rparr>),
      (''model.language_model.encoder.layers.0.self_attention.query_key_value.bias'',
       \<lparr>shape = [6], elems = [20, 21, 22, 23, 24, 25]\<rparr>),
      (''model.language_model.encoder.layers.0.self_attention.dense.bias'',
       \<lparr>shape = [2], elems = [30, 31]\<rparr>)]"

section \<open>Facts about the error plumbing\<close>

lemma and_thenE:
  assumes "and_then r f = Inr y"
  obtains x where "r = Inr x" and "f x = Inr y"
  using assms by (cases r) (simp_all add: and_then_def)

lemma lookup_Inr_iff: "lookup k v = Inr x \<longleftrightarrow> v = Some x"
  by (cases v) (simp_all add: lookup_def)

lemma floordiv_Inr_iff: "floordiv a b = Inr q \<longleftrightarrow> b \<noteq> 0 \<and> q = a div b"
  by (auto simp: floordiv_def)

section \<open>The optimizer-state adapter\<close>

lemma add_lr_scheduler_keeps:
  "add_lr_scheduler lm new = Inr new' \<Longrightarrow>
     global_step new' = global_step new \<and> epoch new' = epoch new \<and>
     optimizer_states new' = optimizer_states new"
  unfolding add_lr_scheduler_def
  by (auto elim!: and_thenE split: option.splits)

lemma add_optimizer_keeps:
  "add_optimizer lm new amp = Inr new' \<Longrightarrow>
     global_step new' = global_step new \<and> epoch new' = epoch new \<and>
     lr_schedulers new' = lr_schedulers new"
  unfolding add_optimizer_def
  by (auto elim!: and_thenE split: option.splits if_splits)

lemma add_optimizer_no_nested:
  "lm_optimizer lm = Some sec \<Longrightarrow> os_optimizer sec = None \<Longrightarrow>
     add_optimizer lm new amp = Inr new"
  by (simp add: add_optimizer_def)

lemma add_step_optimizer_states:
  "optimizer_states (add_step lm new) = optimizer_states new"
  by (simp add: add_step_def split: option.splits)

lemma scheduler_lrs_last_epoch:
  assumes "scheduler_lrs lm sched new gbs = Inr lrs"
  shows "\<exists>n. num_steps sched = Some n \<and> gbs \<noteq> 0 \<and> fst (snd lrs) = py_int n div gbs"
  using assms unfolding scheduler_lrs_def
  by (auto elim!: and_thenE simp: lookup_Inr_iff floordiv_Inr_iff split: option.splits)

lemma py_floordiv_Inr_iff:
  "py_floordiv x b = Inr y \<longleftrightarrow>
     b \<noteq> 0 \<and> y = (case x of PyInt a \<Rightarrow> PyInt (a div b)
                        | PyFloat q \<Rightarrow> PyFloat (of_int \<lfloor>q / of_int b\<rfloor>))"
  by (auto simp: py_floordiv_def split: pynum.splits)

text \<open>
  What the scheduler section holds when the adapter returns: the four counts that go
  through \<open>int\<close> are floor-divided as ints; \<open>max_steps\<close> adds the quotient of line
  206, which is a float whenever \<open>warmup_steps\<close> is.
\<close>

lemma scheduler_content_steps:
  assumes "scheduler_content lm sched new = Inr c"
  shows "\<exists>gbs d w n wf. get_gbs lm = Inr gbs \<and> gbs \<noteq> 0 \<and>
           decay_steps sched = Some d \<and> warmup_steps sched = Some w \<and>
           num_steps sched = Some n \<and>
           c_decay_steps c = py_int d div gbs \<and> c_warmup_steps c = py_int w div gbs \<and>
           c_last_epoch c = py_int n div gbs \<and> c_step_count c = py_int n div gbs \<and>
           py_floordiv w gbs = Inr wf \<and>
           c_max_steps c = py_add (PyInt (py_int d div gbs)) wf"
  using assms unfolding scheduler_content_def
  by (elim and_thenE) (auto simp: lookup_Inr_iff floordiv_Inr_iff dest!: scheduler_lrs_last_epoch)

lemma get_gbs_Inr_iff:
  "get_gbs lm = Inr g \<longleftrightarrow> (\<exists>a. lm_args lm = Some a \<and> global_batch_size a = Some g)"
  by (auto simp: get_gbs_def and_then_def lookup_def split: option.splits)

lemma scheduler_content_no_gbs:
  "get_gbs lm = Inl e \<Longrightarrow> scheduler_content lm sched new = Inl e"
  by (simp add: scheduler_content_def and_then_def)

lemma floor_50: "\<lfloor>(3200 :: rat) / 64\<rfloor> = 50"
  by (simp add: floor_unique)

lemma example_lm_result:
  "add_optimizer_state example_lm fresh_checkpoint True = Inr
     \<lparr>optimizer_states = Some
        [OptDict None
           \<lparr>param_groups = Some [[''lr'' \<mapsto> ''0.0001'', ''initial_lr'' \<mapsto> ''0.00015'']],
            state = ()\<rparr>],
      global_step = Some 5000, epoch = Some 1,
      lr_schedulers = Some
        [\<lparr>c_max_steps = PyFloat 5050, c_warmup_steps = 50, c_constant_steps = 0,
          c_decay_steps = 5000, c_min_lr = ''1e-05'', c_base_lrs = [''0.00015''],
          c_last_epoch = 15, c_last_lr = Some [''0.0001''], c_step_count = 15,
          c_verbose = False, c_get_lr_called_within_step = False\<rparr>]\<rparr>"
  by (simp add: add_optimizer_state_def add_optimizer_def add_step_def add_lr_scheduler_def
      scheduler_content_def scheduler_lrs_def new_param_groups_def get_gbs_def
      set_initial_lrs_def example_lm_def fresh_checkpoint_def and_then_def lookup_def
      floordiv_def py_floordiv_def py_int_def py_add_def floor_50)

text \<open>
  When the source has a scheduler section and the adapter returns, the target
  scheduler section is a one-element list whose decay steps, warmup steps, last step
  and \<open>_step_count\<close> are \<open>int\<close> of the source count floor-divided by the global
  batch size. When the source has no \<open>args\<close>, or \<open>args\<close> has no global batch size,
  the adapter fails: with that lookup's error, unless the optimizer section already
  failed.
\<close>

lemma add_optimizer_state_scheduler_fields:
  assumes "lm_lr_scheduler lm = Some sched"
  shows "(\<forall>new'. add_optimizer_state lm new amp = Inr new' \<longrightarrow>
            (\<exists>a gbs d w n c wf. lm_args lm = Some a \<and> global_batch_size a = Some gbs \<and>
               gbs \<noteq> 0 \<and> decay_steps sched = Some d \<and> warmup_steps sched = Some w \<and>
               num_steps sched = Some n \<and> lr_schedulers new' = Some [c] \<and>
               c_decay_steps c = py_int d div gbs \<and> c_warmup_steps c = py_int w div gbs \<and>
               c_last_epoch c = py_int n div gbs \<and> c_step_count c = py_int n div gbs \<and>
               py_floordiv w gbs = Inr wf \<and>
               c_max_steps c = py_add (PyInt (py_int d div gbs)) wf)) \<and>
         (lm_args lm = None \<longrightarrow>
            (\<exists>e. add_optimizer_state lm new amp = Inl e \<and>
               (e = KeyError ''args'' \<or> add_optimizer lm new amp = Inl e))) \<and>
         (\<forall>a. lm_args lm = Some a \<and> global_batch_size a = None \<longrightarrow>
            (\<exists>e. add_optimizer_state lm new amp = Inl e \<and>
               (e = AttributeError ''global_batch_size'' \<or> add_optimizer lm new amp = Inl e)))"
proof -
  have ok: "\<exists>a gbs d w n c wf. lm_args lm = Some a \<and> global_batch_size a = Some gbs \<and>
               gbs \<noteq> 0 \<and> decay_steps sched = Some d \<and> warmup_steps sched = Some w \<and>
               num_steps sched = Some n \<and> lr_schedulers new' = Some [c] \<and>
               c_decay_steps c = py_int d div gbs \<and> c_warmup_steps c = py_int w div gbs \<and>
               c_last_epoch c = py_int n div gbs \<and> c_step_count c = py_int n div gbs \<and>
               py_floordiv w gbs = Inr wf \<and>
               c_max_steps c = py_add (PyInt (py_int d div gbs)) wf"
    if r: "add_optimizer_state lm new amp = Inr new'" for new'
  proof -
    from r obtain new1 where
      s: "add_lr_scheduler lm (add_step lm new1) = Inr new'"
      unfolding add_optimizer_state_def by (elim and_thenE)
    from s assms obtain c where
      c: "scheduler_content lm sched (add_step lm new1) = Inr c" and
      n: "new' = (add_step lm new1)\<lparr>lr_schedulers := Some [c]\<rparr>"
      unfolding add_lr_scheduler_def by (auto elim!: and_thenE)
    from scheduler_content_steps [OF c] n show ?thesis
      by (auto simp: get_gbs_Inr_iff)
  qed
  have bad: "\<exists>e'. add_optimizer_state lm new amp = Inl e' \<and>
               (e' = e \<or> add_optimizer lm new amp = Inl e')"
    if g: "get_gbs lm = Inl e" for e
  proof (cases "add_optimizer lm new amp")
    case (Inl e')
    then show ?thesis by (simp add: add_optimizer_state_def and_then_def)
  next
    case (Inr new1)
    with assms scheduler_content_no_gbs [OF g] show ?thesis
      by (simp add: add_optimizer_state_def add_lr_scheduler_def and_then_def)
  qed
  have g1: "get_gbs lm = Inl (KeyError ''args'')" if "lm_args lm = None"
    using that by (simp add: get_gbs_def and_then_def lookup_def)
  have g2: "get_gbs lm = Inl (AttributeError ''global_batch_size'')"
    if "lm_args lm = Some a \<and> global_batch_size a = None" for a
    using that by (simp add: get_gbs_def and_then_def lookup_def)
  from ok bad g1 g2 show ?thesis by blast
qed

text \<open>
  Where \<open>warmup_steps\<close> is an int, the quotient of line 206 is the quotient of
  line 207. Where it is a float and the batch size is positive, line 206 gives the
  float of \<open>floor(warmup_steps) // gbs\<close>, which has the value of line 207 exactly
  when \<open>warmup_steps\<close> is not negative or is whole.
\<close>

lemma py_floordiv_int:
  "b \<noteq> 0 \<Longrightarrow> py_floordiv (PyInt a) b = Inr (PyInt (py_int (PyInt a) div b))"
  by (simp add: py_floordiv_def py_int_def)

lemma py_floordiv_float_nonneg:
  assumes "0 < b"
  shows "py_floordiv (PyFloat q) b = Inr (PyFloat (of_int (\<lfloor>q\<rfloor> div b)))"
proof -
  let ?k = "\<lfloor>q\<rfloor> div b"
  have "?k * b \<le> \<lfloor>q\<rfloor>"
    using assms div_mult_mod_eq [of "\<lfloor>q\<rfloor>" b] pos_mod_sign [of b "\<lfloor>q\<rfloor>"]
    by linarith
  then have "(of_int (?k * b) :: rat) \<le> of_int \<lfloor>q\<rfloor>"
    by (simp only: of_int_le_iff)
  also have "\<dots> \<le> q" by simp
  finally have lo: "(of_int ?k :: rat) * of_int b \<le> q" by simp
  have "\<lfloor>q\<rfloor> < ?k * b + b"
    using assms div_mult_mod_eq [of "\<lfloor>q\<rfloor>" b] pos_mod_bound [of b "\<lfloor>q\<rfloor>"]
    by linarith
  then have "\<lfloor>q\<rfloor> < (?k + 1) * b"
    by (simp add: algebra_simps)
  then have "\<lfloor>q\<rfloor> + 1 \<le> (?k + 1) * b" by simp
  then have "(of_int (\<lfloor>q\<rfloor> + 1) :: rat) \<le> of_int ((?k + 1) * b)"
    by (simp only: of_int_le_iff)
  moreover have "q < of_int (\<lfloor>q\<rfloor> + 1)" by simp linarith
  ultimately have hi: "q < (of_int ?k + 1) * (of_int b :: rat)" by simp
  have p: "(0 :: rat) < of_int b" using assms by simp
  have "\<lfloor>q / of_int b\<rfloor> = ?k"
    using lo hi p by (intro floor_unique) (simp_all add: pos_le_divide_eq pos_divide_less_eq)
  with assms show ?thesis by (simp add: py_floordiv_def)
qed


text \<open>
  C8 (as amended). When the adapter returns: if the source has an iteration counter,
  the target's \<open>global_step\<close> is that counter and its \<open>epoch\<close> is 1; if the source
  has none, the adapter writes neither field, and both keep the value the target had.
\<close>

theorem add_optimizer_state_step:
  assumes "add_optimizer_state lm new amp = Inr new'"
  shows "case lm_iteration lm of
           Some it \<Rightarrow> global_step new' = Some it \<and> epoch new' = Some 1
         | None \<Rightarrow> global_step new' = global_step new \<and> epoch new' = epoch new"
proof -
  from assms obtain new1 where
    o: "add_optimizer lm new amp = Inr new1" and
    s: "add_lr_scheduler lm (add_step lm new1) = Inr new'"
    unfolding add_optimizer_state_def by (elim and_thenE)
  from add_lr_scheduler_keeps [OF s] add_optimizer_keeps [OF o]
  show ?thesis by (simp add: add_step_def split: option.splits)
qed

theorem add_optimizer_state_step_witness:
  "\<exists>new'. add_optimizer_state example_lm fresh_checkpoint True = Inr new' \<and>
     global_step new' = Some 5000 \<and> epoch new' = Some 1"
proof -
  have i: "lm_iteration example_lm = Some 5000"
    by (simp add: example_lm_def)
  from add_optimizer_state_step [OF example_lm_result] i show ?thesis
    using example_lm_result by simp
qed

text \<open>
  C8 as stated fails on a source checkpoint without an iteration counter: the
  adapter returns and the target has no \<open>epoch\<close>.
\<close>

theorem add_optimizer_state_epoch_counterexample:
  "add_optimizer_state
     \<lparr>lm_optimizer = None, lm_iteration = None, lm_lr_scheduler = None,
      lm_args = Some \<lparr>global_batch_size = Some 64\<rparr>\<rparr> fresh_checkpoint True
   = Inr fresh_checkpoint \<and> epoch fresh_checkpoint \<noteq> Some 1"
  by (simp add: add_optimizer_state_def add_optimizer_def add_step_def add_lr_scheduler_def
      fresh_checkpoint_def and_then_def)

text \<open>
  C10. A source checkpoint with a top-level optimizer section that has no nested
  optimizer state, and with a scheduler section, makes the adapter fail whenever the
  target has no \<open>optimizer_states\<close> entry: line 211 tests only the top-level key, so
  line 213 looks \<open>optimizer_states\<close> up in the target. When the lookups before it
  succeed, the failure is that \<open>KeyError\<close>; the \<open>max_lr\<close> fallback is not taken.
\<close>

theorem add_optimizer_state_no_fallback:
  assumes "lm_optimizer lm = Some sec" and "os_optimizer sec = None"
    and "lm_lr_scheduler lm = Some sched" and "optimizer_states new = None"
  shows "(\<exists>e. add_optimizer_state lm new amp = Inl e) \<and>
         (\<forall>a gbs d w mn. lm_args lm = Some a \<and> global_batch_size a = Some gbs \<and> gbs \<noteq> 0 \<and>
            decay_steps sched = Some d \<and> warmup_steps sched = Some w \<and>
            min_lr sched = Some mn \<longrightarrow>
            add_optimizer_state lm new amp = Inl (KeyError ''optimizer_states''))"
proof -
  let ?n = "add_step lm new"
  have r: "add_optimizer_state lm new amp = add_lr_scheduler lm ?n"
    using add_optimizer_no_nested [OF assms(1,2)]
    by (simp add: add_optimizer_state_def and_then_def)
  have pg: "new_param_groups ?n = Inl (KeyError ''optimizer_states'')"
    using assms(4) by (simp add: new_param_groups_def add_step_optimizer_states
        lookup_def and_then_def)
  have lrs: "scheduler_lrs lm sched ?n gbs = Inl (KeyError ''optimizer_states'')" for gbs
    using assms(1) pg by (simp add: scheduler_lrs_def and_then_def)
  have "\<exists>e. scheduler_content lm sched ?n = Inl e"
    unfolding scheduler_content_def using lrs
    by (auto simp: and_then_def split: sum.splits)
  then have 1: "\<exists>e. add_optimizer_state lm new amp = Inl e"
    using r assms(3) by (auto simp: add_lr_scheduler_def and_then_def)
  have 2: "add_optimizer_state lm new amp = Inl (KeyError ''optimizer_states'')"
    if "lm_args lm = Some a \<and> global_batch_size a = Some gbs \<and> gbs \<noteq> 0 \<and>
        decay_steps sched = Some d \<and> warmup_steps sched = Some w \<and> min_lr sched = Some mn"
    for a gbs d w mn
  proof -
    from that have "get_gbs lm = Inr gbs"
      by (simp add: get_gbs_Inr_iff)
    with that lrs [of gbs]
    have "scheduler_content lm sched ?n = Inl (KeyError ''optimizer_states'')"
      by (simp add: scheduler_content_def and_then_def lookup_def floordiv_def
          py_floordiv_def split: pynum.splits)
    with r assms(3) show ?thesis
      by (simp add: add_lr_scheduler_def and_then_def)
  qed
  from 1 2 show ?thesis by blast
qed

theorem add_optimizer_state_no_fallback_witness:
  "add_optimizer_state
     (example_lm\<lparr>lm_optimizer := Some \<lparr>os_optimizer = None,
        os_fp32_from_fp16_params = None\<rparr>\<rparr>) fresh_checkpoint True
   = Inl (KeyError ''optimizer_states'')"
proof -
  let ?lm = "example_lm\<lparr>lm_optimizer := Some \<lparr>os_optimizer = None,
        os_fp32_from_fp16_params = None\<rparr>\<rparr>"
  have h: "lm_optimizer ?lm = Some \<lparr>os_optimizer = None, os_fp32_from_fp16_params = None\<rparr>"
    "os_optimizer \<lparr>os_optimizer = None, os_fp32_from_fp16_params = (None :: unit option)\<rparr> = None"
    "lm_lr_scheduler ?lm = Some
        \<lparr>max_lr = Some ''0.00015'', min_lr = Some ''1e-05'', decay_steps = Some (PyInt 320000),
         warmup_steps = Some (PyFloat 3200), num_steps = Some (PyInt 1000)\<rparr>"
    "optimizer_states fresh_checkpoint = None"
    by (simp_all add: example_lm_def fresh_checkpoint_def)
  have a: "lm_args ?lm = Some \<lparr>global_batch_size = Some 64\<rparr>"
    by (simp add: example_lm_def)
  from add_optimizer_state_no_fallback [OF h, of True] a show ?thesis
    by simp
qed

text \<open>
  The fallback of line 218 is reached only when the source has no top-level optimizer
  key: then \<open>base_lrs\<close> is the scheduler's \<open>max_lr\<close> alone.
\<close>

lemma scheduler_lrs_fallback:
  "lm_optimizer lm = None \<Longrightarrow> scheduler_lrs lm sched new gbs = Inr lrs \<Longrightarrow>
     \<exists>mx. max_lr sched = Some mx \<and> fst lrs = [mx] \<and> snd (snd lrs) = None"
  unfolding scheduler_lrs_def
  by (auto elim!: and_thenE simp: lookup_Inr_iff)

section \<open>The key-translation walk\<close>

lemma find_append_rule:
  "List.find P (xs @ ys) = (case List.find P xs of None \<Rightarrow> List.find P ys | Some x \<Rightarrow> Some x)"
  by (induction xs) auto

text \<open>
  What lines 159-164 compute: the last rule, in iteration order, whose pattern occurs
  in the key is applied to the key itself; the results of earlier rules are dropped.
\<close>

lemma translate_loop_last_match:
  "translate_loop rules key new_key =
     (case List.find (\<lambda>(p, r). find_str key p \<ge> 0) (rev rules) of
        None \<Rightarrow> new_key
      | Some (p, r) \<Rightarrow> replace_str key p r)"
  by (induction rules arbitrary: new_key)
     (auto simp: find_append_rule split: option.splits)

text \<open>
  C1. A key in which the patterns of the first two rules both occur: the walk replaces
  \<open>.attention.\<close> only, and \<open>encoder\<close> does not occur in the key it stores.
\<close>

theorem parse_weights_rules_do_not_chain:
  "parse_weights
     [(''transformer.layers.0.attention.dense.bias'',
       Leaf \<lparr>shape = [2], elems = [''b0'', ''b1'']\<rparr>)] '''' (0, []) name_translate
   = (2, [(''model.transformer.layers.0.self_attention.dense.bias'',
           \<lparr>shape = [2], elems = [''b0'', ''b1'']\<rparr>)]) \<and>
   find_str ''model.transformer.layers.0.self_attention.dense.bias'' ''encoder'' = -1"
  by (simp add: name_translate_def translate_key_def numel_def)

section \<open>Row-major addressing and the tensor operations\<close>

lemma ravel_less: "list_all2 (<) idx s \<Longrightarrow> ravel s idx < prod_list s"
proof (induction idx s rule: list_all2_induct)
  case Nil
  then show ?case by simp
next
  case (Cons i js d ds)
  have "i * prod_list ds + ravel ds js < (i + 1) * prod_list ds"
    using Cons.IH by simp
  also have "\<dots> \<le> d * prod_list ds"
    using Cons.hyps(1) by (intro mult_le_mono1) simp
  finally show ?case by simp
qed

lemma unravel_ravel: "list_all2 (<) idx s \<Longrightarrow> unravel s (ravel s idx) = idx"
proof (induction idx s rule: list_all2_induct)
  case Nil
  then show ?case by simp
next
  case (Cons i js d ds)
  from ravel_less [OF Cons.hyps(2)] Cons.IH show ?case by simp
qed

lemma transpose_contiguous_nth:
  assumes "transpose_contiguous d0 d1 t = Inr t'"
    and "list_all2 (<) idx (swap d0 d1 (shape t))"
  shows "elems t' ! ravel (swap d0 d1 (shape t)) idx
           = elems t ! ravel (shape t) (swap d0 d1 idx)"
proof -
  let ?s' = "swap d0 d1 (shape t)"
  from assms(1) have e: "elems t' =
      map (\<lambda>k. elems t ! ravel (shape t) (swap d0 d1 (unravel ?s' k))) [0 ..< prod_list ?s']"
    by (auto simp: transpose_contiguous_def Let_def split: if_splits)
  from ravel_less [OF assms(2)] unravel_ravel [OF assms(2)] show ?thesis
    by (simp add: e)
qed

lemma transpose_contiguous_shape:
  assumes "d0 < length (shape t)" and "d1 < length (shape t)"
  shows "\<exists>t'. transpose_contiguous d0 d1 t = Inr t' \<and> shape t' = swap d0 d1 (shape t) \<and>
           length (elems t') = prod_list (swap d0 d1 (shape t))"
  using assms by (simp add: transpose_contiguous_def Let_def)

lemma view_heads_weight:
  assumes "0 < np" and "0 < c" and "length (elems t) = 3 * nat np * k * c"
  shows "view [3, np, -1, int c] t = Inr (t\<lparr>shape := [3, nat np, k, c]\<rparr>)"
proof -
  have p: "0 < 3 * nat np * c" using assms by simp
  have "3 * nat np * k * c = k * (3 * nat np * c)" by simp
  with assms p show ?thesis
    by (simp add: view_def Let_def del: mult_Suc mult_Suc_right)
qed

lemma view_heads_bias:
  assumes "0 < np" and "length (elems t) = 3 * nat np * k"
  shows "view [3, np, -1] t = Inr (t\<lparr>shape := [3, nat np, k]\<rparr>)"
proof -
  have p: "0 < 3 * nat np" using assms by simp
  have "3 * nat np * k = k * (3 * nat np)" by simp
  with assms p show ?thesis
    by (simp add: view_def Let_def del: mult_Suc mult_Suc_right)
qed

lemma view_heads_weight_v1:
  assumes "0 < np" and "0 < c" and "length (elems t) = 3 * nat np * k * c"
  shows "view [np, -1, 3, int c] t = Inr (t\<lparr>shape := [nat np, k, 3, c]\<rparr>)"
proof -
  have p: "0 < nat np * (3 * c)" using assms by simp
  have "3 * nat np * k * c = k * (nat np * (3 * c))" by simp
  with assms p show ?thesis
    by (simp add: view_def Let_def del: mult_Suc mult_Suc_right)
qed

lemma view_heads_bias_v1:
  assumes "0 < np" and "length (elems t) = 3 * nat np * k"
  shows "view [np, -1, 3] t = Inr (t\<lparr>shape := [nat np, k, 3]\<rparr>)"
proof -
  have p: "0 < nat np * 3" using assms by simp
  have "3 * nat np * k = k * (nat np * 3)" by simp
  with assms p show ?thesis
    by (simp add: view_def Let_def del: mult_Suc mult_Suc_right)
qed

lemma view_rows:
  assumes "0 < c" and "length (elems t) = m * c"
  shows "view [-1, int c] t = Inr (t\<lparr>shape := [m, c]\<rparr>)"
  using assms by (simp add: view_def Let_def)

lemma view_flat: "view [-1] t = Inr (t\<lparr>shape := [length (elems t)]\<rparr>)"
  by (simp add: view_def Let_def)

lemma view_heads_bias_indivisible:
  assumes "0 < np" and "length (elems t) mod (3 * nat np) \<noteq> 0"
  shows "view [3, np, -1] t = Inl (RuntimeError ''shape is invalid for input size'')"
    and "view [np, -1, 3] t = Inl (RuntimeError ''shape is invalid for input size'')"
proof -
  have "length (elems t) \<noteq> 3 * nat np" "length (elems t) \<noteq> nat np * 3"
    using assms(2) by auto
  moreover have "length (elems t) mod (nat np * 3) \<noteq> 0"
    using assms(2) by (simp add: mult.commute)
  ultimately show "view [3, np, -1] t = Inl (RuntimeError ''shape is invalid for input size'')"
    and "view [np, -1, 3] t = Inl (RuntimeError ''shape is invalid for input size'')"
    using assms by (simp_all add: view_def Let_def)
qed

lemma migrate_v0_weight:
  assumes "shape t = [r, c]" and "length (elems t) = r * c" and "0 < np" and "0 < c"
    and "r = 3 * nat np * k"
  shows "\<exists>t'. migrate_v0 np t = Inr t' \<and> shape t' = [r, c] \<and>
           length (elems t') = length (elems t) \<and>
           (\<forall>q<3. \<forall>h<nat np. \<forall>j<k. \<forall>l<c.
              elems t' ! ravel [nat np, 3, k, c] [h, q, j, l]
                = elems t ! ravel [3, nat np, k, c] [q, h, j, l])"
proof -
  let ?w1 = "t\<lparr>shape := [3, nat np, k, c]\<rparr>"
  have n: "length (elems t) = 3 * nat np * k * c"
    using assms(2,5) by simp
  have v1: "view [3, np, -1, int (last (shape t))] t = Inr ?w1"
    using view_heads_weight [OF assms(3,4) n] assms(1) by simp
  obtain w2 where t: "transpose_contiguous 0 1 ?w1 = Inr w2"
    and s2: "shape w2 = [nat np, 3, k, c]"
    and l2: "length (elems w2) = nat np * 3 * k * c"
    using transpose_contiguous_shape [of 0 ?w1 1] by (auto simp: swap_def)
  have v2: "view [-1, int (last (shape w2))] w2 = Inr (w2\<lparr>shape := [r, c]\<rparr>)"
    using view_rows [OF assms(4), of w2 r] l2 s2 assms(5) by simp
  have m: "migrate_v0 np t = Inr (w2\<lparr>shape := [r, c]\<rparr>)"
    using v1 t v2 assms(1) by (simp add: migrate_v0_def and_then_def)
  have i: "elems w2 ! ravel [nat np, 3, k, c] [h, q, j, l]
             = elems t ! ravel [3, nat np, k, c] [q, h, j, l]"
    if "q < 3" "h < nat np" "j < k" "l < c" for q h j l
    using transpose_contiguous_nth [OF t, of "[h, q, j, l]"] that
    by (simp add: swap_def)
  from m l2 n i show ?thesis by simp
qed

lemma migrate_v0_bias:
  assumes "length (shape t) \<noteq> 2" and "0 < np" and "length (elems t) = 3 * nat np * k"
  shows "\<exists>t'. migrate_v0 np t = Inr t' \<and> shape t' = [length (elems t)] \<and>
           length (elems t') = length (elems t) \<and>
           (\<forall>q<3. \<forall>h<nat np. \<forall>j<k.
              elems t' ! ravel [nat np, 3, k] [h, q, j]
                = elems t ! ravel [3, nat np, k] [q, h, j])"
proof -
  let ?w1 = "t\<lparr>shape := [3, nat np, k]\<rparr>"
  have v1: "view [3, np, -1] t = Inr ?w1"
    using view_heads_bias [OF assms(2,3)] .
  obtain w2 where t: "transpose_contiguous 0 1 ?w1 = Inr w2"
    and l2: "length (elems w2) = nat np * 3 * k"
    using transpose_contiguous_shape [of 0 ?w1 1] by (auto simp: swap_def)
  have m: "migrate_v0 np t = Inr (w2\<lparr>shape := [length (elems w2)]\<rparr>)"
    using v1 t assms(1) by (simp add: migrate_v0_def and_then_def view_flat)
  have i: "elems w2 ! ravel [nat np, 3, k] [h, q, j]
             = elems t ! ravel [3, nat np, k] [q, h, j]"
    if "q < 3" "h < nat np" "j < k" for q h j
    using transpose_contiguous_nth [OF t, of "[h, q, j]"] that
    by (simp add: swap_def)
  from m l2 assms(3) i show ?thesis by simp
qed

lemma migrate_v1_weight:
  assumes "shape t = [r, c]" and "length (elems t) = r * c" and "0 < np" and "0 < c"
    and "r = 3 * nat np * k"
  shows "\<exists>t'. migrate_v1 np t = Inr t' \<and> shape t' = [nat np, 3, k, c] \<and>
           length (elems t') = length (elems t) \<and>
           (\<forall>q<3. \<forall>h<nat np. \<forall>j<k. \<forall>l<c.
              elems t' ! ravel [nat np, 3, k, c] [h, q, j, l]
                = elems t ! ravel [nat np, k, 3, c] [h, j, q, l])"
proof -
  let ?w1 = "t\<lparr>shape := [nat np, k, 3, c]\<rparr>"
  have n: "length (elems t) = 3 * nat np * k * c"
    using assms(2,5) by simp
  have v1: "view [np, -1, 3, int (last (shape t))] t = Inr ?w1"
    using view_heads_weight_v1 [OF assms(3,4) n] assms(1) by simp
  obtain w2 where t: "transpose_contiguous 1 2 ?w1 = Inr w2"
    and s2: "shape w2 = [nat np, 3, k, c]"
    and l2: "length (elems w2) = nat np * 3 * k * c"
    using transpose_contiguous_shape [of 1 ?w1 2] by (auto simp: swap_def)
  have m: "migrate_v1 np t = Inr w2"
    using v1 t assms(1) by (simp add: migrate_v1_def and_then_def)
  have i: "elems w2 ! ravel [nat np, 3, k, c] [h, q, j, l]
             = elems t ! ravel [nat np, k, 3, c] [h, j, q, l]"
    if "q < 3" "h < nat np" "j < k" "l < c" for q h j l
    using transpose_contiguous_nth [OF t, of "[h, q, j, l]"] that
    by (simp add: swap_def)
  from m s2 l2 n i show ?thesis by simp
qed

lemma migrate_v1_bias:
  assumes "length (shape t) \<noteq> 2" and "0 < np" and "length (elems t) = 3 * nat np * k"
  shows "\<exists>t'. migrate_v1 np t = Inr t' \<and> shape t' = [nat np, 3, k] \<and>
           length (elems t') = length (elems t) \<and>
           (\<forall>q<3. \<forall>h<nat np. \<forall>j<k.
              elems t' ! ravel [nat np, 3, k] [h, q, j]
                = elems t ! ravel [nat np, k, 3] [h, j, q])"
proof -
  let ?w1 = "t\<lparr>shape := [nat np, k, 3]\<rparr>"
  have v1: "view [np, -1, 3] t = Inr ?w1"
    using view_heads_bias_v1 [OF assms(2,3)] .
  obtain w2 where t: "transpose_contiguous 1 2 ?w1 = Inr w2"
    and s2: "shape w2 = [nat np, 3, k]"
    and l2: "length (elems w2) = nat np * 3 * k"
    using transpose_contiguous_shape [of 1 ?w1 2] by (auto simp: swap_def)
  have m: "migrate_v1 np t = Inr w2"
    using v1 t assms(1) by (simp add: migrate_v1_def and_then_def)
  have i: "elems w2 ! ravel [nat np, 3, k] [h, q, j]
             = elems t ! ravel [nat np, k, 3] [h, j, q]"
    if "q < 3" "h < nat np" "j < k" for q h j
    using transpose_contiguous_nth [OF t, of "[h, q, j]"] that
    by (simp add: swap_def)
  from m s2 l2 assms(3) i show ?thesis by simp
qed

section \<open>The attention layout migration\<close>

lemma map_e_Inr:
  "map_e f xs = Inr ys \<Longrightarrow> list_all2 (\<lambda>x y. f x = Inr y) xs ys"
  by (induction xs arbitrary: ys) (auto split: sum.splits)

text \<open>
  The loops of lines 306 and 321 run the loop body on every entry, in order, and keep
  the keys; an absent \<open>checkpoint_version\<close> counts as version 0.
\<close>

lemma attention_layout_migration_entries:
  assumes "attention_layout_migration v hparams config sd = Inr sd'"
  shows "(v = None \<or> v = Some 0 \<longrightarrow>
            (\<exists>np. attention_heads hparams config = Inr np \<and>
               list_all2 (\<lambda>x y. migrate_entry migrate_v0 np x = Inr y) sd sd')) \<and>
         (v = Some 1 \<longrightarrow>
            (\<exists>np. attention_heads hparams config = Inr np \<and>
               list_all2 (\<lambda>x y. migrate_entry migrate_v1 np x = Inr y) sd sd'))"
  using assms unfolding attention_layout_migration_def
  by (auto elim!: and_thenE dest!: map_e_Inr)

lemma map_e_total:
  "\<forall>x \<in> set xs. \<exists>y. f x = Inr y \<Longrightarrow> \<exists>ys. map_e f xs = Inr ys"
proof (induction xs)
  case Nil
  then show ?case by simp
next
  case (Cons x xs)
  then obtain y ys where "f x = Inr y" and "map_e f xs = Inr ys"
    by auto
  then show ?case by simp
qed

lemma migrate_entry_marked:
  "find_str key ''query_key_value'' \<ge> 0 \<Longrightarrow>
     migrate_entry f np (key, t) = and_then (f np t) (\<lambda>w. Inr (key, w))"
  by (simp add: migrate_entry_def)

text \<open>
  What the migration does to the entry at one position of the state dictionary, for
  the head count it resolved: the tensor is the result of the version's loop body,
  the key and the number of entries are kept.
\<close>

lemma attention_layout_migration_entry:
  assumes "attention_layout_migration v hparams config sd = Inr sd'"
    and "attention_heads hparams config = Inr np"
    and "i < length sd" and "sd ! i = (key, t)" and "find_str key ''query_key_value'' \<ge> 0"
  shows "(v = None \<or> v = Some 0 \<longrightarrow>
            length sd' = length sd \<and> (\<exists>t0. migrate_v0 np t = Inr t0 \<and> sd' ! i = (key, t0))) \<and>
         (v = Some 1 \<longrightarrow>
            length sd' = length sd \<and> (\<exists>t1. migrate_v1 np t = Inr t1 \<and> sd' ! i = (key, t1)))"
proof -
  have e: "length sd' = length sd \<and> (\<exists>t'. f np t = Inr t' \<and> sd' ! i = (key, t'))"
    if l: "list_all2 (\<lambda>x y. migrate_entry f np x = Inr y) sd sd'" for f
  proof -
    from l have n: "length sd' = length sd"
      by (simp add: list_all2_lengthD)
    from list_all2_nthD [OF l assms(3)] assms(4)
    have "migrate_entry f np (key, t) = Inr (sd' ! i)" by simp
    then have "and_then (f np t) (\<lambda>w. Inr (key, w)) = Inr (sd' ! i)"
      unfolding migrate_entry_marked [OF assms(5)] .
    then obtain t' where "f np t = Inr t'" and "Inr (key, t') = Inr (sd' ! i)"
      by (rule and_thenE) blast
    with n show ?thesis by simp
  qed
  from attention_layout_migration_entries [OF assms(1)] assms(2) e [of migrate_v0]
    e [of migrate_v1]
  show ?thesis by auto
qed

text \<open>
  C3. The migration of a state dictionary, with \<open>np > 0\<close> heads resolved from the
  hyperparameters or the legacy config, at an entry whose key contains
  \<open>query_key_value\<close>. For version 0 (also when the checkpoint names no version): a
  2-D weight of shape \<open>[r, c]\<close> with \<open>r = 3 * np * k\<close> is viewed as
  \<open>(3, np, k, c)\<close>, transposed in its first two axes and flattened back to
  \<open>[r, c]\<close>; a 1-D bias of \<open>n = 3 * np * k\<close> elements likewise comes back with
  shape \<open>[n]\<close>. For version 1: the weight is viewed as \<open>(np, k, 3, c)\<close>, transposed
  in axes 1 and 2 and left with the four-dimensional shape \<open>[np, 3, k, c]\<close>; the bias
  is left with the three-dimensional shape \<open>[np, 3, k]\<close>. In each case the key and
  the element count are kept and the element at each multi-index of the transposed
  view is the element of the source at the exchanged multi-index. For a version of 3
  or more the state dictionary is returned as it is. For versions 0 and 1 the
  migration returns whenever every fused entry is such a weight or bias.
\<close>

theorem attention_layout_migration_layouts:
  assumes "attention_heads hparams config = Inr np" and "0 < np"
    and "i < length sd" and "sd ! i = (key, t)" and "find_str key ''query_key_value'' \<ge> 0"
  shows "(\<forall>sd'. (v = None \<or> v = Some 0) \<and>
            attention_layout_migration v hparams config sd = Inr sd' \<longrightarrow>
            length sd' = length sd \<and>
            (\<exists>t0. sd' ! i = (key, t0) \<and>
               (shape t = [r, c] \<and> length (elems t) = r * c \<and> 0 < c \<and> r = 3 * nat np * k \<longrightarrow>
                  shape t0 = [r, c] \<and> length (elems t0) = length (elems t) \<and>
                  (\<forall>q<3. \<forall>h<nat np. \<forall>j<k. \<forall>l<c.
                     elems t0 ! ravel [nat np, 3, k, c] [h, q, j, l]
                       = elems t ! ravel [3, nat np, k, c] [q, h, j, l])) \<and>
               (shape t = [n] \<and> length (elems t) = n \<and> n = 3 * nat np * k \<longrightarrow>
                  shape t0 = [n] \<and> length (elems t0) = length (elems t) \<and>
                  (\<forall>q<3. \<forall>h<nat np. \<forall>j<k.
                     elems t0 ! ravel [nat np, 3, k] [h, q, j]
                       = elems t ! ravel [3, nat np, k] [q, h, j])))) \<and>
         (\<forall>sd'. v = Some 1 \<and>
            attention_layout_migration v hparams config sd = Inr sd' \<longrightarrow>
            length sd' = length sd \<and>
            (\<exists>t1. sd' ! i = (key, t1) \<and>
               (shape t = [r, c] \<and> length (elems t) = r * c \<and> 0 < c \<and> r = 3 * nat np * k \<longrightarrow>
                  shape t1 = [nat np, 3, k, c] \<and> length (elems t1) = length (elems t) \<and>
                  (\<forall>q<3. \<forall>h<nat np. \<forall>j<k. \<forall>l<c.
                     elems t1 ! ravel [nat np, 3, k, c] [h, q, j, l]
                       = elems t ! ravel [nat np, k, 3, c] [h, j, q, l])) \<and>
               (shape t = [n] \<and> length (elems t) = n \<and> n = 3 * nat np * k \<longrightarrow>
                  shape t1 = [nat np, 3, k] \<and> length (elems t1) = length (elems t) \<and>
                  (\<forall>q<3. \<forall>h<nat np. \<forall>j<k.
                     elems t1 ! ravel [nat np, 3, k] [h, q, j]
                       = elems t ! ravel [nat np, k, 3] [h, j, q])))) \<and>
         (\<forall>w. 3 \<le> w \<longrightarrow> attention_layout_migration (Some w) hparams config sd = Inr sd) \<and>
         ((v = None \<or> v = Some 0 \<or> v = Some 1) \<and>
            (\<forall>e \<in> set sd. find_str (fst e) ''query_key_value'' \<ge> 0 \<longrightarrow>
               (\<exists>r' c' k'. shape (snd e) = [r', c'] \<and> length (elems (snd e)) = r' * c' \<and>
                  0 < c' \<and> r' = 3 * nat np * k') \<or>
               (\<exists>k'. shape (snd e) = [3 * nat np * k'] \<and>
                  length (elems (snd e)) = 3 * nat np * k')) \<longrightarrow>
            (\<exists>sd'. attention_layout_migration v hparams config sd = Inr sd'))"
proof (intro conjI allI impI)
  fix sd'
  assume a: "(v = None \<or> v = Some 0) \<and>
            attention_layout_migration v hparams config sd = Inr sd'"
  then have m: "attention_layout_migration v hparams config sd = Inr sd'"
    and v: "v = None \<or> v = Some 0"
    by blast+
  from attention_layout_migration_entry [OF m assms(1,3,4,5)] v obtain t0 where
    n: "length sd' = length sd" and t0: "migrate_v0 np t = Inr t0" and
    e: "sd' ! i = (key, t0)"
    by blast
  from n show "length sd' = length sd" .
  have w: "shape t0 = [r, c] \<and> length (elems t0) = length (elems t) \<and>
                  (\<forall>q<3. \<forall>h<nat np. \<forall>j<k. \<forall>l<c.
                     elems t0 ! ravel [nat np, 3, k, c] [h, q, j, l]
                       = elems t ! ravel [3, nat np, k, c] [q, h, j, l])"
    if "shape t = [r, c] \<and> length (elems t) = r * c \<and> 0 < c \<and> r = 3 * nat np * k"
  proof -
    from that have h: "shape t = [r, c]" "length (elems t) = r * c" "0 < c"
      "r = 3 * nat np * k"
      by simp_all
    from migrate_v0_weight [OF h(1,2) assms(2) h(3,4)] t0 show ?thesis by auto
  qed
  have b: "shape t0 = [n] \<and> length (elems t0) = length (elems t) \<and>
                  (\<forall>q<3. \<forall>h<nat np. \<forall>j<k.
                     elems t0 ! ravel [nat np, 3, k] [h, q, j]
                       = elems t ! ravel [3, nat np, k] [q, h, j])"
    if "shape t = [n] \<and> length (elems t) = n \<and> n = 3 * nat np * k"
  proof -
    from that have r: "length (shape t) \<noteq> 2" and l: "length (elems t) = 3 * nat np * k"
      and n: "n = length (elems t)"
      by simp_all
    from migrate_v0_bias [OF r assms(2) l] t0 show ?thesis unfolding n by auto
  qed
  from e w b show "\<exists>t0. sd' ! i = (key, t0) \<and>
               (shape t = [r, c] \<and> length (elems t) = r * c \<and> 0 < c \<and> r = 3 * nat np * k \<longrightarrow>
                  shape t0 = [r, c] \<and> length (elems t0) = length (elems t) \<and>
                  (\<forall>q<3. \<forall>h<nat np. \<forall>j<k. \<forall>l<c.
                     elems t0 ! ravel [nat np, 3, k, c] [h, q, j, l]
                       = elems t ! ravel [3, nat np, k, c] [q, h, j, l])) \<and>
               (shape t = [n] \<and> length (elems t) = n \<and> n = 3 * nat np * k \<longrightarrow>
                  shape t0 = [n] \<and> length (elems t0) = length (elems t) \<and>
                  (\<forall>q<3. \<forall>h<nat np. \<forall>j<k.
                     elems t0 ! ravel [nat np, 3, k] [h, q, j]
                       = elems t ! ravel [3, nat np, k] [q, h, j]))"
    by blast
next
  fix sd'
  assume a: "v = Some 1 \<and> attention_layout_migration v hparams config sd = Inr sd'"
  then have m: "attention_layout_migration v hparams config sd = Inr sd'"
    and v: "v = Some 1"
    by blast+
  from attention_layout_migration_entry [OF m assms(1,3,4,5)] v obtain t1 where
    n: "length sd' = length sd" and t1: "migrate_v1 np t = Inr t1" and
    e: "sd' ! i = (key, t1)"
    by blast
  from n show "length sd' = length sd" .
  have w: "shape t1 = [nat np, 3, k, c] \<and> length (elems t1) = length (elems t) \<and>
                  (\<forall>q<3. \<forall>h<nat np. \<forall>j<k. \<forall>l<c.
                     elems t1 ! ravel [nat np, 3, k, c] [h, q, j, l]
                       = elems t ! ravel [nat np, k, 3, c] [h, j, q, l])"
    if "shape t = [r, c] \<and> length (elems t) = r * c \<and> 0 < c \<and> r = 3 * nat np * k"
  proof -
    from that have h: "shape t = [r, c]" "length (elems t) = r * c" "0 < c"
      "r = 3 * nat np * k"
      by simp_all
    from migrate_v1_weight [OF h(1,2) assms(2) h(3,4)] t1 show ?thesis by auto
  qed
  have b: "shape t1 = [nat np, 3, k] \<and> length (elems t1) = length (elems t) \<and>
                  (\<forall>q<3. \<forall>h<nat np. \<forall>j<k.
                     elems t1 ! ravel [nat np, 3, k] [h, q, j]
                       = elems t ! ravel [nat np, k, 3] [h, j, q])"
    if "shape t = [n] \<and> length (elems t) = n \<and> n = 3 * nat np * k"
  proof -
    from that have r: "length (shape t) \<noteq> 2" and l: "length (elems t) = 3 * nat np * k"
      by simp_all
    from migrate_v1_bias [OF r assms(2) l] t1 show ?thesis by auto
  qed
  from e w b show "\<exists>t1. sd' ! i = (key, t1) \<and>
               (shape t = [r, c] \<and> length (elems t) = r * c \<and> 0 < c \<and> r = 3 * nat np * k \<longrightarrow>
                  shape t1 = [nat np, 3, k, c] \<and> length (elems t1) = length (elems t) \<and>
                  (\<forall>q<3. \<forall>h<nat np. \<forall>j<k. \<forall>l<c.
                     elems t1 ! ravel [nat np, 3, k, c] [h, q, j, l]
                       = elems t ! ravel [nat np, k, 3, c] [h, j, q, l])) \<and>
               (shape t = [n] \<and> length (elems t) = n \<and> n = 3 * nat np * k \<longrightarrow>
                  shape t1 = [nat np, 3, k] \<and> length (elems t1) = length (elems t) \<and>
                  (\<forall>q<3. \<forall>h<nat np. \<forall>j<k.
                     elems t1 ! ravel [nat np, 3, k] [h, q, j]
                       = elems t ! ravel [nat np, k, 3] [h, j, q]))"
    by blast
next
  fix w :: int
  assume "3 \<le> w"
  then show "attention_layout_migration (Some w) hparams config sd = Inr sd"
    by (simp add: attention_layout_migration_def)
next
  assume a: "(v = None \<or> v = Some 0 \<or> v = Some 1) \<and>
            (\<forall>e \<in> set sd. find_str (fst e) ''query_key_value'' \<ge> 0 \<longrightarrow>
               (\<exists>r' c' k'. shape (snd e) = [r', c'] \<and> length (elems (snd e)) = r' * c' \<and>
                  0 < c' \<and> r' = 3 * nat np * k') \<or>
               (\<exists>k'. shape (snd e) = [3 * nat np * k'] \<and>
                  length (elems (snd e)) = 3 * nat np * k'))"
  have ok: "\<exists>y. migrate_entry migrate_v0 np e = Inr y"
    "\<exists>y. migrate_entry migrate_v1 np e = Inr y" if "e \<in> set sd" for e
  proof -
    show "\<exists>y. migrate_entry migrate_v0 np e = Inr y"
    proof (cases "find_str (fst e) ''query_key_value'' \<ge> 0")
      case False
      then show ?thesis by (simp add: migrate_entry_def)
    next
      case True
      with a that consider
        (weight) r' c' k' where "shape (snd e) = [r', c']"
          "length (elems (snd e)) = r' * c'" "0 < c'" "r' = 3 * nat np * k'"
        | (bias) k' where "shape (snd e) = [3 * nat np * k']"
          "length (elems (snd e)) = 3 * nat np * k'"
        by blast
      then have "\<exists>t'. migrate_v0 np (snd e) = Inr t'"
      proof cases
        case weight
        from migrate_v0_weight [OF weight(1,2) assms(2) weight(3,4)] show ?thesis by blast
      next
        case bias
        from bias(1) have "length (shape (snd e)) \<noteq> 2" by simp
        from migrate_v0_bias [OF this assms(2) bias(2)] show ?thesis by blast
      qed
      with True show ?thesis by (auto simp: migrate_entry_def and_then_def)
    qed
    show "\<exists>y. migrate_entry migrate_v1 np e = Inr y"
    proof (cases "find_str (fst e) ''query_key_value'' \<ge> 0")
      case False
      then show ?thesis by (simp add: migrate_entry_def)
    next
      case True
      with a that consider
        (weight) r' c' k' where "shape (snd e) = [r', c']"
          "length (elems (snd e)) = r' * c'" "0 < c'" "r' = 3 * nat np * k'"
        | (bias) k' where "shape (snd e) = [3 * nat np * k']"
          "length (elems (snd e)) = 3 * nat np * k'"
        by blast
      then have "\<exists>t'. migrate_v1 np (snd e) = Inr t'"
      proof cases
        case weight
        from migrate_v1_weight [OF weight(1,2) assms(2) weight(3,4)] show ?thesis by blast
      next
        case bias
        from bias(1) have "length (shape (snd e)) \<noteq> 2" by simp
        from migrate_v1_bias [OF this assms(2) bias(2)] show ?thesis by blast
      qed
      with True show ?thesis by (auto simp: migrate_entry_def and_then_def)
    qed
  qed
  from ok have "\<exists>ys. map_e (migrate_entry migrate_v0 np) sd = Inr ys"
    and "\<exists>ys. map_e (migrate_entry migrate_v1 np) sd = Inr ys"
    by (intro map_e_total ballI; blast)+
  with a assms(1) show "\<exists>sd'. attention_layout_migration v hparams config sd = Inr sd'"
    by (auto simp: attention_layout_migration_def and_then_def)
qed

lemma example_state_dict_v0:
  "attention_layout_migration (Some 0) None (Some 2) example_state_dict = Inr
     [(''model.language_model.encoder.layers.0.self_attention.query_key_value.weight'',
       \<lparr>shape = [6, 2], elems = [0, 1, 4, 5, 8, 9, 2, 3, 6, 7, 10, 11]\<rparr>),
      (''model.language_model.encoder.layers.0.self_attention.query_key_value.bias'',
       \<lparr>shape = [6], elems = [20, 22, 24, 21, 23, 25]\<rparr>),
      (''model.language_model.encoder.layers.0.self_attention.dense.bias'',
       \<lparr>shape = [2], elems = [30, 31]\<rparr>)]"
  by code_simp

lemma example_state_dict_v1:
  "attention_layout_migration (Some 1) None (Some 2) example_state_dict = Inr
     [(''model.language_model.encoder.layers.0.self_attention.query_key_value.weight'',
       \<lparr>shape = [2, 3, 1, 2], elems = [0, 1, 2, 3, 4, 5, 6, 7, 8, 9, 10, 11]\<rparr>),
      (''model.language_model.encoder.layers.0.self_attention.query_key_value.bias'',
       \<lparr>shape = [2, 3, 1], elems = [20, 21, 22, 23, 24, 25]\<rparr>),
      (''model.language_model.encoder.layers.0.self_attention.dense.bias'',
       \<lparr>shape = [2], elems = [30, 31]\<rparr>)]"
  by code_simp

lemma example_state_dict_entries:
  "0 < length example_state_dict"
  "example_state_dict ! 0 = (''model.language_model.encoder.layers.0.self_attention.query_key_value.weight'', \<lparr>shape = [6, 2], elems = [0, 1, 2, 3, 4, 5, 6, 7, 8, 9, 10, 11 :: nat]\<rparr>)"
  "0 \<le> find_str ''model.language_model.encoder.layers.0.self_attention.query_key_value.weight'' ''query_key_value''"
  "1 < length example_state_dict"
  "example_state_dict ! 1 = (''model.language_model.encoder.layers.0.self_attention.query_key_value.bias'', \<lparr>shape = [6], elems = [20, 21, 22, 23, 24, 25 :: nat]\<rparr>)"
  "0 \<le> find_str ''model.language_model.encoder.layers.0.self_attention.query_key_value.bias'' ''query_key_value''"
  by (simp_all add: example_state_dict_def)

lemma example_state_dict_fused:
  "\<forall>e \<in> set example_state_dict. find_str (fst e) ''query_key_value'' \<ge> 0 \<longrightarrow>
     (\<exists>r' c' k'. shape (snd e) = [r', c'] \<and> length (elems (snd e)) = r' * c' \<and>
        0 < c' \<and> r' = 3 * nat 2 * k') \<or>
     (\<exists>k'. shape (snd e) = [3 * nat 2 * k'] \<and> length (elems (snd e)) = 3 * nat 2 * k')"
proof
  fix e :: "string \<times> nat tensor"
  assume "e \<in> set example_state_dict"
  then consider "e = (''model.language_model.encoder.layers.0.self_attention.query_key_value.weight'', \<lparr>shape = [6, 2], elems = [0, 1, 2, 3, 4, 5, 6, 7, 8, 9, 10, 11 :: nat]\<rparr>)" | "e = (''model.language_model.encoder.layers.0.self_attention.query_key_value.bias'', \<lparr>shape = [6], elems = [20, 21, 22, 23, 24, 25 :: nat]\<rparr>)"
    | "e = (''model.language_model.encoder.layers.0.self_attention.dense.bias'',
            \<lparr>shape = [2], elems = [30, 31]\<rparr>)"
    by (auto simp: example_state_dict_def)
  then show "find_str (fst e) ''query_key_value'' \<ge> 0 \<longrightarrow>
     (\<exists>r' c' k'. shape (snd e) = [r', c'] \<and> length (elems (snd e)) = r' * c' \<and>
        0 < c' \<and> r' = 3 * nat 2 * k') \<or>
     (\<exists>k'. shape (snd e) = [3 * nat 2 * k'] \<and> length (elems (snd e)) = 3 * nat 2 * k')"
  proof cases
    case 1
    have "shape (snd e) = [6, 2] \<and> length (elems (snd e)) = 6 * 2 \<and> (0 :: nat) < 2 \<and>
        (6 :: nat) = 3 * nat 2 * 1"
      unfolding 1 by simp
    then show ?thesis by blast
  next
    case 2
    have "shape (snd e) = [3 * nat 2 * 1] \<and> length (elems (snd e)) = 3 * nat 2 * 1"
      unfolding 2 by simp
    then show ?thesis by blast
  next
    case 3
    have "\<not> find_str (fst e) ''query_key_value'' \<ge> 0"
      unfolding 3 by simp
    then show ?thesis by blast
  qed
qed

theorem attention_layout_migration_layouts_witness:
  "(\<exists>sd' t0 t1. attention_layout_migration (Some 0) None (Some 2) example_state_dict = Inr sd' \<and>
      length sd' = 3 \<and> sd' ! 0 = (''model.language_model.encoder.layers.0.self_attention.query_key_value.weight'', t0) \<and> shape t0 = [6, 2] \<and>
      sd' ! 1 = (''model.language_model.encoder.layers.0.self_attention.query_key_value.bias'', t1) \<and> shape t1 = [6]) \<and>
   (\<exists>sd' t0 t1. attention_layout_migration (Some 1) None (Some 2) example_state_dict = Inr sd' \<and>
      length sd' = 3 \<and> sd' ! 0 = (''model.language_model.encoder.layers.0.self_attention.query_key_value.weight'', t0) \<and> shape t0 = [2, 3, 1, 2] \<and>
      sd' ! 1 = (''model.language_model.encoder.layers.0.self_attention.query_key_value.bias'', t1) \<and> shape t1 = [2, 3, 1]) \<and>
   attention_layout_migration (Some 3) None (Some 2) example_state_dict
     = Inr example_state_dict \<and>
   (\<exists>sd'. attention_layout_migration None None (Some 2) example_state_dict = Inr sd')"
proof -
  have h: "attention_heads None (Some 2) = Inr 2"
    by (simp add: attention_heads_def)
  have p: "(0 :: int) < 2" by simp
  note e = example_state_dict_entries
  note w = attention_layout_migration_layouts [OF h p e(1,2,3)]
  note b = attention_layout_migration_layouts [OF h p e(4,5,6)]
  have ws: "shape \<lparr>shape = [6, 2], elems = [0, 1, 2, 3, 4, 5, 6, 7, 8, 9, 10, 11 :: nat]\<rparr> = [6, 2] \<and> length (elems \<lparr>shape = [6, 2], elems = [0, 1, 2, 3, 4, 5, 6, 7, 8, 9, 10, 11 :: nat]\<rparr>) = 6 * 2 \<and> (0 :: nat) < 2 \<and>
      (6 :: nat) = 3 * nat 2 * 1"
    by simp
  have bs: "shape \<lparr>shape = [6], elems = [20, 21, 22, 23, 24, 25 :: nat]\<rparr> = [6] \<and> length (elems \<lparr>shape = [6], elems = [20, 21, 22, 23, 24, 25 :: nat]\<rparr>) = 6 \<and> (6 :: nat) = 3 * nat 2 * 1"
    by simp
  have n: "length example_state_dict = 3"
    by (simp add: example_state_dict_def)
  have v0: "(Some 0 = None \<or> Some 0 = Some (0 :: int)) \<and>
      attention_layout_migration (Some 0) None (Some 2) example_state_dict = Inr ([(''model.language_model.encoder.layers.0.self_attention.query_key_value.weight'',
       \<lparr>shape = [6, 2], elems = [0, 1, 4, 5, 8, 9, 2, 3, 6, 7, 10, 11 :: nat]\<rparr>),
      (''model.language_model.encoder.layers.0.self_attention.query_key_value.bias'',
       \<lparr>shape = [6], elems = [20, 22, 24, 21, 23, 25]\<rparr>),
      (''model.language_model.encoder.layers.0.self_attention.dense.bias'',
       \<lparr>shape = [2], elems = [30, 31]\<rparr>)])"
    using example_state_dict_v0 by simp
  have v1: "Some 1 = Some (1 :: int) \<and>
      attention_layout_migration (Some 1) None (Some 2) example_state_dict = Inr ([(''model.language_model.encoder.layers.0.self_attention.query_key_value.weight'',
       \<lparr>shape = [2, 3, 1, 2], elems = [0, 1, 2, 3, 4, 5, 6, 7, 8, 9, 10, 11 :: nat]\<rparr>),
      (''model.language_model.encoder.layers.0.self_attention.query_key_value.bias'',
       \<lparr>shape = [2, 3, 1], elems = [20, 21, 22, 23, 24, 25]\<rparr>),
      (''model.language_model.encoder.layers.0.self_attention.dense.bias'',
       \<lparr>shape = [2], elems = [30, 31]\<rparr>)])"
    using example_state_dict_v1 by simp
  from w [of "Some 0" 6 2 1 0, THEN conjunct1, rule_format, OF v0] ws
  obtain t0 where "([(''model.language_model.encoder.layers.0.self_attention.query_key_value.weight'',
       \<lparr>shape = [6, 2], elems = [0, 1, 4, 5, 8, 9, 2, 3, 6, 7, 10, 11 :: nat]\<rparr>),
      (''model.language_model.encoder.layers.0.self_attention.query_key_value.bias'',
       \<lparr>shape = [6], elems = [20, 22, 24, 21, 23, 25]\<rparr>),
      (''model.language_model.encoder.layers.0.self_attention.dense.bias'',
       \<lparr>shape = [2], elems = [30, 31]\<rparr>)]) ! 0 = (''model.language_model.encoder.layers.0.self_attention.query_key_value.weight'', t0)" and "shape t0 = [6, 2]"
    by blast
  moreover from b [of "Some 0" 0 0 1 6, THEN conjunct1, rule_format, OF v0] bs
  obtain t1 where "([(''model.language_model.encoder.layers.0.self_attention.query_key_value.weight'',
       \<lparr>shape = [6, 2], elems = [0, 1, 4, 5, 8, 9, 2, 3, 6, 7, 10, 11 :: nat]\<rparr>),
      (''model.language_model.encoder.layers.0.self_attention.query_key_value.bias'',
       \<lparr>shape = [6], elems = [20, 22, 24, 21, 23, 25]\<rparr>),
      (''model.language_model.encoder.layers.0.self_attention.dense.bias'',
       \<lparr>shape = [2], elems = [30, 31]\<rparr>)]) ! 1 = (''model.language_model.encoder.layers.0.self_attention.query_key_value.bias'', t1)" and "shape t1 = [6]"
    by blast
  moreover from w [of "Some 0" 6 2 1 0, THEN conjunct1, rule_format, OF v0] n
  have "length ([(''model.language_model.encoder.layers.0.self_attention.query_key_value.weight'',
       \<lparr>shape = [6, 2], elems = [0, 1, 4, 5, 8, 9, 2, 3, 6, 7, 10, 11 :: nat]\<rparr>),
      (''model.language_model.encoder.layers.0.self_attention.query_key_value.bias'',
       \<lparr>shape = [6], elems = [20, 22, 24, 21, 23, 25]\<rparr>),
      (''model.language_model.encoder.layers.0.self_attention.dense.bias'',
       \<lparr>shape = [2], elems = [30, 31]\<rparr>)]) = 3" by simp
  ultimately have 1: "\<exists>sd' t0 t1.
      attention_layout_migration (Some 0) None (Some 2) example_state_dict = Inr sd' \<and>
      length sd' = 3 \<and> sd' ! 0 = (''model.language_model.encoder.layers.0.self_attention.query_key_value.weight'', t0) \<and> shape t0 = [6, 2] \<and>
      sd' ! 1 = (''model.language_model.encoder.layers.0.self_attention.query_key_value.bias'', t1) \<and> shape t1 = [6]"
    using example_state_dict_v0 by blast
  from w [of "Some 1" 6 2 1 0, THEN conjunct2, THEN conjunct1, rule_format, OF v1] ws
  obtain t0 where "([(''model.language_model.encoder.layers.0.self_attention.query_key_value.weight'',
       \<lparr>shape = [2, 3, 1, 2], elems = [0, 1, 2, 3, 4, 5, 6, 7, 8, 9, 10, 11 :: nat]\<rparr>),
      (''model.language_model.encoder.layers.0.self_attention.query_key_value.bias'',
       \<lparr>shape = [2, 3, 1], elems = [20, 21, 22, 23, 24, 25]\<rparr>),
      (''model.language_model.encoder.layers.0.self_attention.dense.bias'',
       \<lparr>shape = [2], elems = [30, 31]\<rparr>)]) ! 0 = (''model.language_model.encoder.layers.0.self_attention.query_key_value.weight'', t0)" and "shape t0 = [nat 2, 3, 1, 2]"
    by blast
  moreover from b [of "Some 1" 0 0 1 6, THEN conjunct2, THEN conjunct1, rule_format, OF v1] bs
  obtain t1 where "([(''model.language_model.encoder.layers.0.self_attention.query_key_value.weight'',
       \<lparr>shape = [2, 3, 1, 2], elems = [0, 1, 2, 3, 4, 5, 6, 7, 8, 9, 10, 11 :: nat]\<rparr>),
      (''model.language_model.encoder.layers.0.self_attention.query_key_value.bias'',
       \<lparr>shape = [2, 3, 1], elems = [20, 21, 22, 23, 24, 25]\<rparr>),
      (''model.language_model.encoder.layers.0.self_attention.dense.bias'',
       \<lparr>shape = [2], elems = [30, 31]\<rparr>)]) ! 1 = (''model.language_model.encoder.layers.0.self_attention.query_key_value.bias'', t1)" and "shape t1 = [nat 2, 3, 1]"
    by blast
  moreover from w [of "Some 1" 6 2 1 0, THEN conjunct2, THEN conjunct1, rule_format, OF v1] n
  have "length ([(''model.language_model.encoder.layers.0.self_attention.query_key_value.weight'',
       \<lparr>shape = [2, 3, 1, 2], elems = [0, 1, 2, 3, 4, 5, 6, 7, 8, 9, 10, 11 :: nat]\<rparr>),
      (''model.language_model.encoder.layers.0.self_attention.query_key_value.bias'',
       \<lparr>shape = [2, 3, 1], elems = [20, 21, 22, 23, 24, 25]\<rparr>),
      (''model.language_model.encoder.layers.0.self_attention.dense.bias'',
       \<lparr>shape = [2], elems = [30, 31]\<rparr>)]) = 3" by simp
  ultimately have 2: "\<exists>sd' t0 t1.
      attention_layout_migration (Some 1) None (Some 2) example_state_dict = Inr sd' \<and>
      length sd' = 3 \<and> sd' ! 0 = (''model.language_model.encoder.layers.0.self_attention.query_key_value.weight'', t0) \<and> shape t0 = [2, 3, 1, 2] \<and>
      sd' ! 1 = (''model.language_model.encoder.layers.0.self_attention.query_key_value.bias'', t1) \<and> shape t1 = [2, 3, 1]"
    using example_state_dict_v1 by auto
  have "(3 :: int) \<le> 3" by simp
  from w [of None 0 0 0 0, THEN conjunct2, THEN conjunct2, THEN conjunct1, rule_format, OF this]
  have 3: "attention_layout_migration (Some 3) None (Some 2) example_state_dict
     = Inr example_state_dict" .
  have "(None = None \<or> None = Some (0 :: int) \<or> None = Some (1 :: int)) \<and>
      (\<forall>e \<in> set example_state_dict. find_str (fst e) ''query_key_value'' \<ge> 0 \<longrightarrow>
     (\<exists>r' c' k'. shape (snd e) = [r', c'] \<and> length (elems (snd e)) = r' * c' \<and>
        0 < c' \<and> r' = 3 * nat 2 * k') \<or>
     (\<exists>k'. shape (snd e) = [3 * nat 2 * k'] \<and> length (elems (snd e)) = 3 * nat 2 * k'))"
    using example_state_dict_fused by blast
  from w [of None 0 0 0 0, THEN conjunct2, THEN conjunct2, THEN conjunct2, rule_format, OF this]
  have 4: "\<exists>sd'. attention_layout_migration None None (Some 2) example_state_dict = Inr sd'" .
  from 1 2 3 4 show ?thesis by (intro conjI)
qed

text \<open>
  C4 (as amended). The migration has no rank check. For versions 0 and 1 every fused
  tensor whose rank is not 2 takes the bias branch: with \<open>np > 0\<close> heads it is
  transformed whenever its element count is a multiple of \<open>3 * np\<close> (to a 1-D tensor
  for version 0, to shape \<open>[np, 3, k]\<close> for version 1), and otherwise \<open>view\<close>
  fails with the library's \<open>RuntimeError\<close>.
\<close>

theorem migrate_rank_not_checked:
  assumes "length (shape t) \<noteq> 2" and "0 < np"
  shows "(length (elems t) mod (3 * nat np) = 0 \<longrightarrow>
            (\<exists>t0 t1. migrate_v0 np t = Inr t0 \<and> shape t0 = [length (elems t)] \<and>
               migrate_v1 np t = Inr t1 \<and>
               shape t1 = [nat np, 3, length (elems t) div (3 * nat np)])) \<and>
         (length (elems t) mod (3 * nat np) \<noteq> 0 \<longrightarrow>
            migrate_v0 np t = Inl (RuntimeError ''shape is invalid for input size'') \<and>
            migrate_v1 np t = Inl (RuntimeError ''shape is invalid for input size''))"
proof (intro conjI impI)
  assume d: "length (elems t) mod (3 * nat np) = 0"
  define k where "k = length (elems t) div (3 * nat np)"
  from d have l: "length (elems t) = 3 * nat np * k"
    unfolding k_def by auto
  from migrate_v0_bias [OF assms l] migrate_v1_bias [OF assms l]
  show "\<exists>t0 t1. migrate_v0 np t = Inr t0 \<and> shape t0 = [length (elems t)] \<and>
               migrate_v1 np t = Inr t1 \<and>
               shape t1 = [nat np, 3, length (elems t) div (3 * nat np)]"
    unfolding k_def [symmetric] by blast
next
  assume "length (elems t) mod (3 * nat np) \<noteq> 0"
  from view_heads_bias_indivisible [OF assms(2) this] assms(1)
  show "migrate_v0 np t = Inl (RuntimeError ''shape is invalid for input size'')"
    and "migrate_v1 np t = Inl (RuntimeError ''shape is invalid for input size'')"
    by (simp_all add: migrate_v0_def migrate_v1_def and_then_def)
qed

theorem migrate_rank_not_checked_witness:
  "(\<exists>t0 t1.
      migrate_v0 2 \<lparr>shape = [3, 2, 2], elems = [0, 1, 2, 3, 4, 5, 6, 7, 8, 9, 10, 11 :: nat]\<rparr>
        = Inr t0 \<and> shape t0 = [12] \<and>
      migrate_v1 2 \<lparr>shape = [3, 2, 2], elems = [0, 1, 2, 3, 4, 5, 6, 7, 8, 9, 10, 11 :: nat]\<rparr>
        = Inr t1 \<and> shape t1 = [2, 3, 2]) \<and>
   migrate_v0 2 \<lparr>shape = [5], elems = [0, 1, 2, 3, 4 :: nat]\<rparr>
     = Inl (RuntimeError ''shape is invalid for input size'') \<and>
   migrate_v1 2 \<lparr>shape = [5], elems = [0, 1, 2, 3, 4 :: nat]\<rparr>
     = Inl (RuntimeError ''shape is invalid for input size'')"
proof -
  have p: "(0::int) < 2" by simp
  have r3: "length (shape \<lparr>shape = [3, 2, 2],
      elems = [0, 1, 2, 3, 4, 5, 6, 7, 8, 9, 10, 11 :: nat]\<rparr>) \<noteq> 2"
    and r1: "length (shape \<lparr>shape = [5], elems = [0, 1, 2, 3, 4 :: nat]\<rparr>) \<noteq> 2"
    by simp_all
  have n: "Suc (Suc (Suc (Suc (Suc (Suc (Suc (Suc (Suc (Suc (Suc (Suc 0)))))))))))
             = 12"
    by simp
  from migrate_rank_not_checked [OF r3 p]
  have 1: "\<exists>t0 t1.
      migrate_v0 2 \<lparr>shape = [3, 2, 2], elems = [0, 1, 2, 3, 4, 5, 6, 7, 8, 9, 10, 11 :: nat]\<rparr>
        = Inr t0 \<and> shape t0 = [12] \<and>
      migrate_v1 2 \<lparr>shape = [3, 2, 2], elems = [0, 1, 2, 3, 4, 5, 6, 7, 8, 9, 10, 11 :: nat]\<rparr>
        = Inr t1 \<and> shape t1 = [2, 3, 2]"
    by (simp add: n)
  from migrate_rank_not_checked [OF r1 p]
  have 2: "migrate_v0 2 \<lparr>shape = [5], elems = [0, 1, 2, 3, 4 :: nat]\<rparr>
     = Inl (RuntimeError ''shape is invalid for input size'') \<and>
   migrate_v1 2 \<lparr>shape = [5], elems = [0, 1, 2, 3, 4 :: nat]\<rparr>
     = Inl (RuntimeError ''shape is invalid for input size'')"
    by simp
  from 1 2 show ?thesis by blast
qed

text \<open>
  C4 as stated fails on a version-0 checkpoint with two heads whose fused
  tensor has rank 3: the migration returns, with the tensor rewritten by the bias
  branch.
\<close>

theorem migrate_rank3_counterexample:
  "attention_layout_migration (Some 0) None (Some 2)
     [(''layers.0.attention.query_key_value.weight'',
       \<lparr>shape = [3, 2, 2], elems = [0, 1, 2, 3, 4, 5, 6, 7, 8, 9, 10, 11 :: nat]\<rparr>)]
   = Inr [(''layers.0.attention.query_key_value.weight'',
       \<lparr>shape = [12], elems = [0, 1, 4, 5, 8, 9, 2, 3, 6, 7, 10, 11]\<rparr>)]"
  by code_simp

section \<open>The reranker on a cached score file\<close>

lemma cached_loop_short:
  "int (length src + length lines) < beam \<Longrightarrow> cached_loop pick beam lines src tgt = Inr tgt"
  by (induction lines arbitrary: src) (simp_all add: Let_def)

lemma cached_loop_fill:
  "int (Suc (length src)) \<noteq> beam \<Longrightarrow>
     cached_loop pick beam (line # lines) src tgt
       = cached_loop pick beam lines (src @ [split_fields line]) tgt"
  by (simp add: Let_def)

lemma cached_loop_full:
  "cached_loop pick (int (Suc (length src))) (line # lines) src tgt =
     (if \<not> list_all (\<lambda>item. length item = 7) (src @ [split_fields line])
        then Inl (IndexError field_count_message)
      else
        (case pick (src @ [split_fields line]) of
           Inl e \<Rightarrow> Inl e
         | Inr i \<Rightarrow>
             if i < Suc (length src)
             then cached_loop pick (int (Suc (length src))) lines []
                    (tgt @ [map (\<lambda>item. item ! 1) (src @ [split_fields line]) ! i])
             else Inl (IndexError ''list index out of range'')))"
  by (simp add: Let_def split: sum.splits)

lemma cached_loop_Inr:
  assumes "0 < beam" and "length src < nat beam"
    and "cached_loop pick beam lines src tgt = Inr out"
  shows "\<exists>new. out = tgt @ new \<and> length new = (length src + length lines) div nat beam \<and>
           (\<forall>x \<in> set (take (length new * nat beam) (src @ map split_fields lines)).
              length x = 7)"
  using assms(2,3)
proof (induction lines arbitrary: src tgt)
  case Nil
  then show ?case by simp
next
  case (Cons line lines)
  let ?src = "src @ [split_fields line]"
  show ?case
  proof (cases "int (Suc (length src)) = beam")
    case True
    then have b: "nat beam = Suc (length src)" by simp
    from Cons.prems(2) have
      "cached_loop pick (int (Suc (length src))) (line # lines) src tgt = Inr out"
      unfolding True .
    then obtain i where
      all: "list_all (\<lambda>item. length item = 7) ?src" and
      rec: "cached_loop pick (int (Suc (length src))) lines []
              (tgt @ [map (\<lambda>item. item ! 1) ?src ! i]) = Inr out"
      unfolding cached_loop_full by (auto split: if_splits sum.splits)
    from rec have rec': "cached_loop pick beam lines []
              (tgt @ [map (\<lambda>item. item ! 1) ?src ! i]) = Inr out"
      unfolding True .
    from assms(1) have "length ([] :: string list list) < nat beam" by simp
    from Cons.IH [OF this rec'] have
      "\<exists>new. out = (tgt @ [map (\<lambda>item. item ! 1) ?src ! i]) @ new \<and>
         length new = length lines div nat beam \<and>
         (\<forall>x \<in> set (take (length new * nat beam) (map split_fields lines)). length x = 7)"
      by simp
    then obtain new where
      o: "out = (tgt @ [map (\<lambda>item. item ! 1) ?src ! i]) @ new" and
      l: "length new = length lines div nat beam" and
      f: "\<forall>x \<in> set (take (length new * nat beam) (map split_fields lines)). length x = 7"
      by (elim exE conjE)
    let ?new = "(map (\<lambda>item. item ! 1) ?src ! i) # new"
    have 1: "out = tgt @ ?new" using o by simp
    have 2: "length ?new = (length src + length (line # lines)) div nat beam"
      using l b div_add_self1 [of "Suc (length src)" "length lines"] by simp
    have t: "take (length ?new * nat beam) (src @ map split_fields (line # lines))
            = ?src @ take (length new * nat beam) (map split_fields lines)"
      using b by simp
    from all have "\<forall>x \<in> set ?src. length x = 7"
      unfolding list_all_iff .
    with f have 3: "\<forall>x \<in> set (take (length ?new * nat beam)
        (src @ map split_fields (line # lines))). length x = 7"
      unfolding t set_append by blast
    from 1 2 3 show ?thesis by blast
  next
    case False
    with Cons.prems(1) have s: "length ?src < nat beam" by auto
    from Cons.prems(2) have
      rec: "cached_loop pick beam lines ?src tgt = Inr out"
      unfolding cached_loop_fill [OF False] .
    from Cons.IH [OF s rec] show ?thesis by simp
  qed
qed


lemma cached_loop_bad_first_window:
  assumes "length src < nat beam" and "nat beam \<le> length src + length lines"
    and "\<exists>x \<in> set (take (nat beam) (src @ map split_fields lines)). length x \<noteq> 7"
  shows "cached_loop pick beam lines src tgt = Inl (IndexError field_count_message)"
  using assms
proof (induction lines arbitrary: src)
  case Nil
  then show ?case by simp
next
  case (Cons line lines)
  let ?src = "src @ [split_fields line]"
  show ?case
  proof (cases "int (Suc (length src)) = beam")
    case True
    then have b: "nat beam = Suc (length src)" by simp
    have tk: "take (nat beam) (src @ map split_fields (line # lines)) = ?src"
      unfolding b by simp
    from Cons.prems(3) have "\<exists>x \<in> set ?src. length x \<noteq> 7"
      unfolding tk .
    then have "\<not> list_all (\<lambda>item. length item = 7) ?src"
      unfolding list_all_iff by blast
    then have "cached_loop pick (int (Suc (length src))) (line # lines) src tgt
                 = Inl (IndexError field_count_message)"
      unfolding cached_loop_full by simp
    then show ?thesis unfolding True .
  next
    case False
    with Cons.prems(1) have s: "length ?src < nat beam" by auto
    from Cons.prems(2) have n: "nat beam \<le> length ?src + length lines" by simp
    from Cons.prems(3) have
      x: "\<exists>x \<in> set (take (nat beam) (?src @ map split_fields lines)). length x \<noteq> 7"
      by simp
    from Cons.IH [OF s n x] show ?thesis
      unfolding cached_loop_fill [OF False] .
  qed
qed

lemma cached_loop_trailing:
  assumes "0 < beam" and "length src < nat beam"
    and "(length src + length lines) mod nat beam = 0" and "length extra < nat beam"
  shows "cached_loop pick beam (lines @ extra) src tgt = cached_loop pick beam lines src tgt"
  using assms(2,3)
proof (induction lines arbitrary: src tgt)
  case Nil
  then have "src = []" by simp
  moreover from assms(4) have "int (length ([] :: string list list) + length extra) < beam"
    by simp
  ultimately show ?case
    using cached_loop_short [of "[]" extra beam pick tgt] by simp
next
  case (Cons line lines)
  let ?src = "src @ [split_fields line]"
  show ?case
  proof (cases "int (Suc (length src)) = beam")
    case True
    then have b: "nat beam = Suc (length src)" by simp
    from assms(1) have e: "length ([] :: string list list) < nat beam" by simp
    have "(nat beam + length lines) mod nat beam = 0"
      using Cons.prems(2) unfolding b by simp
    then have m: "(length ([] :: string list list) + length lines) mod nat beam = 0"
      by simp
    have "cached_loop pick (int (Suc (length src))) ((line # lines) @ extra) src tgt
            = cached_loop pick (int (Suc (length src))) (line # lines) src tgt"
      using Cons.IH [OF e m] unfolding append_Cons cached_loop_full True [symmetric]
      by (simp split: sum.splits)
    then show ?thesis unfolding True .
  next
    case False
    with Cons.prems(1) have s: "length ?src < nat beam" by auto
    from Cons.prems(2) have m: "(length ?src + length lines) mod nat beam = 0" by simp
    from Cons.IH [OF s m] show ?thesis
      unfolding append_Cons cached_loop_fill [OF False] .
  qed
qed

lemma score_line_fields:
  "split_fields score_line_a
     = [''ein Haus'', ''a house'', ''-2.0'', ''-3.0'', ''-1.0'', ''2'', ''2'']"
  "split_fields score_line_b
     = [''ein Haus'', ''one house'', ''-2.5'', ''-3.5'', ''-1.5'', ''2'', ''2'']"
  "split_fields short_line = [''ein Haus'', ''a home'', ''-2.0'', ''-3.0'', ''-1.0'', ''2'']"
  by code_simp+

text \<open>
  C5 (as amended). In cached-score-file mode with a positive beam size: when the
  reranker returns, it has selected one translation for each complete window of
  \<open>beam_size\<close> consecutive lines, and every line of those windows has exactly 7
  tab-separated fields; when a record of the first complete window does not have 7
  fields, the run fails with an \<open>IndexError\<close> whose message is a fixed text without a
  line count, and nothing is selected; lines after the last complete window are
  ignored without any error, whatever they hold.
\<close>

theorem rerank_cached_windows:
  assumes "0 < beam"
  shows "(\<forall>out. rerank_cached pick beam lines = Inr out \<longrightarrow>
            length out = length lines div nat beam \<and>
            (\<forall>line \<in> set (take (length out * nat beam) lines).
               length (split_fields line) = 7)) \<and>
         (nat beam \<le> length lines \<and>
            (\<exists>line \<in> set (take (nat beam) lines). length (split_fields line) \<noteq> 7) \<longrightarrow>
            rerank_cached pick beam lines = Inl (IndexError field_count_message)) \<and>
         (length lines mod nat beam = 0 \<and> length extra < nat beam \<longrightarrow>
            rerank_cached pick beam (lines @ extra) = rerank_cached pick beam lines)"
proof (intro conjI allI impI)
  fix out
  assume r: "rerank_cached pick beam lines = Inr out"
  from assms have e: "length ([] :: string list list) < nat beam" by simp
  from r have "cached_loop pick beam lines [] [] = Inr out"
    unfolding rerank_cached_def .
  from cached_loop_Inr [OF assms e this] obtain new where
    o: "out = [] @ new" and
    l: "length new = (length ([] :: string list list) + length lines) div nat beam" and
    f: "\<forall>x \<in> set (take (length new * nat beam) ([] @ map split_fields lines)).
          length x = 7"
    by (elim exE conjE)
  from o have n: "new = out" by simp
  from l show "length out = length lines div nat beam"
    unfolding n by simp
  from f have "\<forall>x \<in> split_fields ` set (take (length out * nat beam) lines). length x = 7"
    unfolding n append_Nil take_map set_map .
  then show "\<forall>line \<in> set (take (length out * nat beam) lines).
               length (split_fields line) = 7"
    by blast
next
  assume a: "nat beam \<le> length lines \<and>
            (\<exists>line \<in> set (take (nat beam) lines). length (split_fields line) \<noteq> 7)"
  from assms have e: "length ([] :: string list list) < nat beam" by simp
  from a have n: "nat beam \<le> length ([] :: string list list) + length lines" by simp
  from a have "\<exists>x \<in> split_fields ` set (take (nat beam) lines). length x \<noteq> 7"
    by blast
  then have x: "\<exists>x \<in> set (take (nat beam) ([] @ map split_fields lines)). length x \<noteq> 7"
    unfolding append_Nil take_map set_map .
  from cached_loop_bad_first_window [OF e n x]
  show "rerank_cached pick beam lines = Inl (IndexError field_count_message)"
    unfolding rerank_cached_def .
next
  assume a: "length lines mod nat beam = 0 \<and> length extra < nat beam"
  from assms have e: "length ([] :: string list list) < nat beam" by simp
  from a have m: "(length ([] :: string list list) + length lines) mod nat beam = 0"
    and x: "length extra < nat beam" by simp_all
  from cached_loop_trailing [OF assms e m x]
  show "rerank_cached pick beam (lines @ extra) = rerank_cached pick beam lines"
    unfolding rerank_cached_def .
qed

lemma rerank_cached_example:
  "rerank_cached (\<lambda>w. Inr 0) 2 [score_line_a, score_line_b] = Inr [''a house'']"
  by (simp add: rerank_cached_def Let_def score_line_fields)

theorem rerank_cached_windows_witness:
  "(\<exists>out. rerank_cached (\<lambda>w. Inr 0) 2 [score_line_a, score_line_b] = Inr out \<and>
      length out = 1) \<and>
   rerank_cached (\<lambda>w. Inr 0) 2 [score_line_a, short_line]
     = Inl (IndexError field_count_message) \<and>
   rerank_cached (\<lambda>w. Inr 0) 2 ([score_line_a, score_line_b] @ [short_line])
     = rerank_cached (\<lambda>w. Inr 0) 2 [score_line_a, score_line_b]"
proof -
  have p: "(0::int) < 2" by simp
  note w = rerank_cached_windows [OF p, of "\<lambda>w. Inr 0"]
  from w [of "[score_line_a, score_line_b]" "[short_line]",
      THEN conjunct1, rule_format, OF rerank_cached_example]
  have "length [''a house''] = length [score_line_a, score_line_b] div nat 2"
    by (rule conjunct1)
  then have "length [''a house''] = 1" by simp
  with rerank_cached_example
  have 1: "\<exists>out. rerank_cached (\<lambda>w. Inr 0) 2 [score_line_a, score_line_b] = Inr out \<and>
      length out = 1"
    by blast
  have "length [score_line_a, score_line_b] mod nat 2 = 0 \<and> length [short_line] < nat 2"
    by simp
  from w [of "[score_line_a, score_line_b]" "[short_line]",
      THEN conjunct2, THEN conjunct2, rule_format, OF this]
  have 3: "rerank_cached (\<lambda>w. Inr 0) 2 ([score_line_a, score_line_b] @ [short_line])
     = rerank_cached (\<lambda>w. Inr 0) 2 [score_line_a, score_line_b]" .
  have s: "length (split_fields short_line) \<noteq> 7"
    unfolding score_line_fields by simp
  have m: "short_line \<in> set (take (nat 2) [score_line_a, short_line])"
    by simp
  have n: "nat 2 \<le> length [score_line_a, short_line]"
    by simp
  from s m have "\<exists>line \<in> set (take (nat 2) [score_line_a, short_line]).
         length (split_fields line) \<noteq> 7"
    by (rule bexI)
  with n have "nat 2 \<le> length [score_line_a, short_line] \<and>
      (\<exists>line \<in> set (take (nat 2) [score_line_a, short_line]).
         length (split_fields line) \<noteq> 7)"
    by (rule conjI)
  from w [of "[score_line_a, short_line]" "[]",
      THEN conjunct2, THEN conjunct1, rule_format, OF this]
  have 2: "rerank_cached (\<lambda>w. Inr 0) 2 [score_line_a, short_line]
     = Inl (IndexError field_count_message)" .
  from 1 2 3 show ?thesis by blast
qed

text \<open>
  C5 as stated fails where the number of lines is not a multiple of
  \<open>beam_size\<close>: with a beam of 2, one line alone gives an empty output and no error,
  and a third line with 6 fields after a complete window is ignored.
\<close>

theorem rerank_cached_trailing_counterexample:
  "rerank_cached (\<lambda>w. Inr 0) 2 [score_line_a] = Inr [] \<and>
   rerank_cached (\<lambda>w. Inr 0) 2 [score_line_a, score_line_b, short_line] = Inr [''a house'']"
  by (simp add: rerank_cached_def Let_def score_line_fields)

section \<open>The reranker's argument checks\<close>

lemma restore_reverse_models_prefix:
  "\<forall>g \<in> set good. suffix ''.nemo'' g \<and> nmt_ok g \<Longrightarrow>
     restore_reverse_models nmt_ok (good @ paths) trace
       = restore_reverse_models nmt_ok paths (trace @ map RestoreNMT good)"
  by (induction good arbitrary: trace) simp_all

lemma restore_reverse_models_all:
  "\<forall>g \<in> set paths. suffix ''.nemo'' g \<and> nmt_ok g \<Longrightarrow>
     restore_reverse_models nmt_ok paths trace = (trace @ map RestoreNMT paths, Inr ())"
  using restore_reverse_models_prefix [of paths nmt_ok "[]" trace] by simp

lemma load_models_cached:
  "cached_score_file args \<noteq> None \<Longrightarrow> load_models nmt_ok lm_ok args = ([], Inr ())"
  by (auto simp: load_models_def)

text \<open>
  C9 (as amended). When both \<open>--srctext\<close> and \<open>--cached_score_file\<close> are given,
  the run fails with the \<open>ValueError\<close> of line 172 and has loaded no model. When
  neither is given, the run always fails, but line 158 comes first: without
  \<open>--reverse_model\<close> the failure is an \<open>AttributeError\<close>; at the first reverse-model
  path that does not end in \<open>.nemo\<close> it is the \<open>NotImplementedError\<close> of line 162,
  after the models before it have been restored; at the first model that cannot be
  restored it is the loader's exception; and the \<open>ValueError\<close> of line 175 is reached
  only after every reverse model and the language model have been restored.
\<close>

theorem check_args_input_flags:
  "(srctext args \<noteq> None \<and> cached_score_file args \<noteq> None \<longrightarrow>
      check_args nmt_ok lm_ok args =
        ([], Inl (ValueError
           ''Only one of --srctext or --cached_score_file must be provided.''))) \<and>
   (srctext args = None \<and> cached_score_file args = None \<longrightarrow>
      (reverse_model args = None \<longrightarrow>
         check_args nmt_ok lm_ok args = ([], Inl (AttributeError ''split''))) \<and>
      (\<forall>paths good p rest.
         reverse_model args = Some paths \<and> split_on CHR '','' paths = good @ p # rest \<and>
         (\<forall>g \<in> set good. suffix ''.nemo'' g \<and> nmt_ok g) \<and> \<not> suffix ''.nemo'' p \<longrightarrow>
         check_args nmt_ok lm_ok args =
           (map RestoreNMT good,
            Inl (NotImplementedError (''Only support .nemo files, but got: '' @ p)))) \<and>
      (\<forall>paths good p rest.
         reverse_model args = Some paths \<and> split_on CHR '','' paths = good @ p # rest \<and>
         (\<forall>g \<in> set good. suffix ''.nemo'' g \<and> nmt_ok g) \<and> suffix ''.nemo'' p \<and>
         \<not> nmt_ok p \<longrightarrow>
         check_args nmt_ok lm_ok args =
           (map RestoreNMT good @ [RestoreNMT p], Inl (RuntimeError ''restore_from''))) \<and>
      (\<forall>paths.
         reverse_model args = Some paths \<and>
         (\<forall>g \<in> set (split_on CHR '','' paths). suffix ''.nemo'' g \<and> nmt_ok g) \<longrightarrow>
         check_args nmt_ok lm_ok args =
           (map RestoreNMT (split_on CHR '','' paths) @ [RestoreLM (language_model args)],
            Inl (if lm_ok (language_model args)
                 then ValueError ''Neither --srctext nor --cached_score_file were provided.''
                 else RuntimeError ''restore_from''))))"
proof (intro conjI impI allI)
  assume "srctext args \<noteq> None \<and> cached_score_file args \<noteq> None"
  then show "check_args nmt_ok lm_ok args =
        ([], Inl (ValueError
           ''Only one of --srctext or --cached_score_file must be provided.''))"
    by (simp add: check_args_def load_models_cached)
next
  assume "srctext args = None \<and> cached_score_file args = None"
    and "reverse_model args = None"
  then show "check_args nmt_ok lm_ok args = ([], Inl (AttributeError ''split''))"
    by (simp add: check_args_def load_models_def)
next
  fix paths good p rest
  assume n: "srctext args = None \<and> cached_score_file args = None"
    and a: "reverse_model args = Some paths \<and> split_on CHR '','' paths = good @ p # rest \<and>
         (\<forall>g \<in> set good. suffix ''.nemo'' g \<and> nmt_ok g) \<and> \<not> suffix ''.nemo'' p"
  from a have g: "\<forall>g \<in> set good. suffix ''.nemo'' g \<and> nmt_ok g" by blast
  from a have "restore_reverse_models nmt_ok (split_on CHR '','' paths) []
      = (map RestoreNMT good,
         Inl (NotImplementedError (''Only support .nemo files, but got: '' @ p)))"
    using restore_reverse_models_prefix [OF g, of "p # rest" "[]"] by simp
  with n a show "check_args nmt_ok lm_ok args =
           (map RestoreNMT good,
            Inl (NotImplementedError (''Only support .nemo files, but got: '' @ p)))"
    by (simp add: check_args_def load_models_def)
next
  fix paths good p rest
  assume n: "srctext args = None \<and> cached_score_file args = None"
    and a: "reverse_model args = Some paths \<and> split_on CHR '','' paths = good @ p # rest \<and>
         (\<forall>g \<in> set good. suffix ''.nemo'' g \<and> nmt_ok g) \<and> suffix ''.nemo'' p \<and>
         \<not> nmt_ok p"
  from a have g: "\<forall>g \<in> set good. suffix ''.nemo'' g \<and> nmt_ok g" by blast
  from a have "restore_reverse_models nmt_ok (split_on CHR '','' paths) []
      = (map RestoreNMT good @ [RestoreNMT p], Inl (RuntimeError ''restore_from''))"
    using restore_reverse_models_prefix [OF g, of "p # rest" "[]"] by simp
  with n a show "check_args nmt_ok lm_ok args =
           (map RestoreNMT good @ [RestoreNMT p], Inl (RuntimeError ''restore_from''))"
    by (simp add: check_args_def load_models_def)
next
  fix paths
  assume n: "srctext args = None \<and> cached_score_file args = None"
    and a: "reverse_model args = Some paths \<and>
         (\<forall>g \<in> set (split_on CHR '','' paths). suffix ''.nemo'' g \<and> nmt_ok g)"
  from a have g: "\<forall>g \<in> set (split_on CHR '','' paths). suffix ''.nemo'' g \<and> nmt_ok g"
    by blast
  have "restore_reverse_models nmt_ok (split_on CHR '','' paths) []
      = (map RestoreNMT (split_on CHR '','' paths), Inr ())"
    using restore_reverse_models_all [OF g, of "[]"] by simp
  with n a show "check_args nmt_ok lm_ok args =
           (map RestoreNMT (split_on CHR '','' paths) @ [RestoreLM (language_model args)],
            Inl (if lm_ok (language_model args)
                 then ValueError ''Neither --srctext nor --cached_score_file were provided.''
                 else RuntimeError ''restore_from''))"
    by (simp add: check_args_def load_models_def)
qed

lemma split_reverse_model: "split_on CHR '','' ''reverse.nemo'' = [''reverse.nemo'']"
  by code_simp

lemma split_two_models:
  "split_on CHR '','' ''reverse.nemo,reverse.ckpt'' = [''reverse.nemo''] @ ''reverse.ckpt'' # []"
  by code_simp

lemma suffix_nemo: "suffix ''.nemo'' ''reverse.nemo''" "\<not> suffix ''.nemo'' ''reverse.ckpt''"
  by (simp_all add: suffix_def)

theorem check_args_input_flags_witness:
  "check_args (\<lambda>p. True) (\<lambda>p. True) both_args =
     ([], Inl (ValueError
        ''Only one of --srctext or --cached_score_file must be provided.'')) \<and>
   check_args (\<lambda>p. True) (\<lambda>p. True) (neither_args\<lparr>reverse_model := None\<rparr>) =
     ([], Inl (AttributeError ''split'')) \<and>
   check_args (\<lambda>p. True) (\<lambda>p. True)
       (neither_args\<lparr>reverse_model := Some ''reverse.nemo,reverse.ckpt''\<rparr>) =
     ([RestoreNMT ''reverse.nemo''],
      Inl (NotImplementedError ''Only support .nemo files, but got: reverse.ckpt'')) \<and>
   check_args (\<lambda>p. False) (\<lambda>p. True) neither_args =
     ([RestoreNMT ''reverse.nemo''], Inl (RuntimeError ''restore_from'')) \<and>
   check_args (\<lambda>p. True) (\<lambda>p. False) neither_args =
     ([RestoreNMT ''reverse.nemo'', RestoreLM (Some ''lm.nemo'')],
      Inl (RuntimeError ''restore_from'')) \<and>
   check_args (\<lambda>p. True) (\<lambda>p. True) neither_args =
     ([RestoreNMT ''reverse.nemo'', RestoreLM (Some ''lm.nemo'')],
      Inl (ValueError ''Neither --srctext nor --cached_score_file were provided.''))"
proof -
  have b: "srctext both_args \<noteq> None \<and> cached_score_file both_args \<noteq> None"
    by (simp add: both_args_def)
  have n: "srctext (neither_args\<lparr>reverse_model := r\<rparr>) = None \<and>
           cached_score_file (neither_args\<lparr>reverse_model := r\<rparr>) = None" for r
    by (simp add: neither_args_def)
  have n0: "srctext neither_args = None \<and> cached_score_file neither_args = None"
    by (simp add: neither_args_def)
  have r: "reverse_model neither_args = Some ''reverse.nemo''"
    and l: "language_model neither_args = Some ''lm.nemo''"
    by (simp_all add: neither_args_def)
  note t = check_args_input_flags
  from t [of both_args, THEN conjunct1, rule_format, OF b]
  have 1: "check_args (\<lambda>p. True) (\<lambda>p. True) both_args =
     ([], Inl (ValueError
        ''Only one of --srctext or --cached_score_file must be provided.''))" .
  from t [of "neither_args\<lparr>reverse_model := None\<rparr>" "\<lambda>p. True" "\<lambda>p. True",
      THEN conjunct2, rule_format, OF n, THEN conjunct1, rule_format]
  have 2: "check_args (\<lambda>p. True) (\<lambda>p. True) (neither_args\<lparr>reverse_model := None\<rparr>) =
     ([], Inl (AttributeError ''split''))"
    by simp
  have "reverse_model (neither_args\<lparr>reverse_model := Some ''reverse.nemo,reverse.ckpt''\<rparr>)
          = Some ''reverse.nemo,reverse.ckpt'' \<and>
        split_on CHR '','' ''reverse.nemo,reverse.ckpt'' = [''reverse.nemo''] @ ''reverse.ckpt'' # [] \<and>
        (\<forall>g \<in> set [''reverse.nemo'']. suffix ''.nemo'' g \<and> True) \<and>
        \<not> suffix ''.nemo'' ''reverse.ckpt''"
    using split_two_models suffix_nemo by simp
  from t [of "neither_args\<lparr>reverse_model := Some ''reverse.nemo,reverse.ckpt''\<rparr>"
        "\<lambda>p. True" "\<lambda>p. True",
      THEN conjunct2, rule_format, OF n, THEN conjunct2, THEN conjunct1, rule_format, OF this]
  have 3: "check_args (\<lambda>p. True) (\<lambda>p. True)
       (neither_args\<lparr>reverse_model := Some ''reverse.nemo,reverse.ckpt''\<rparr>) =
     ([RestoreNMT ''reverse.nemo''],
      Inl (NotImplementedError ''Only support .nemo files, but got: reverse.ckpt''))"
    by simp
  have "reverse_model neither_args = Some ''reverse.nemo'' \<and>
        split_on CHR '','' ''reverse.nemo'' = [] @ ''reverse.nemo'' # [] \<and>
        (\<forall>g \<in> set []. suffix ''.nemo'' g \<and> False) \<and>
        suffix ''.nemo'' ''reverse.nemo'' \<and> \<not> False"
    using r split_reverse_model suffix_nemo by simp
  from t [of neither_args "\<lambda>p. False" "\<lambda>p. True",
      THEN conjunct2, rule_format, OF n0, THEN conjunct2, THEN conjunct2, THEN conjunct1,
      rule_format, OF this]
  have 4: "check_args (\<lambda>p. False) (\<lambda>p. True) neither_args =
     ([RestoreNMT ''reverse.nemo''], Inl (RuntimeError ''restore_from''))"
    by simp
  have a: "reverse_model neither_args = Some ''reverse.nemo'' \<and>
        (\<forall>g \<in> set (split_on CHR '','' ''reverse.nemo''). suffix ''.nemo'' g \<and> True)"
    using r split_reverse_model suffix_nemo by simp
  from t [of neither_args "\<lambda>p. True" "\<lambda>p. False",
      THEN conjunct2, rule_format, OF n0, THEN conjunct2, THEN conjunct2, THEN conjunct2,
      rule_format, OF a]
  have 5: "check_args (\<lambda>p. True) (\<lambda>p. False) neither_args =
     ([RestoreNMT ''reverse.nemo'', RestoreLM (Some ''lm.nemo'')],
      Inl (RuntimeError ''restore_from''))"
    by (simp add: split_reverse_model l)
  from t [of neither_args "\<lambda>p. True" "\<lambda>p. True",
      THEN conjunct2, rule_format, OF n0, THEN conjunct2, THEN conjunct2, THEN conjunct2,
      rule_format, OF a]
  have 6: "check_args (\<lambda>p. True) (\<lambda>p. True) neither_args =
     ([RestoreNMT ''reverse.nemo'', RestoreLM (Some ''lm.nemo'')],
      Inl (ValueError ''Neither --srctext nor --cached_score_file were provided.''))"
    by (simp add: split_reverse_model l)
  from 1 2 3 4 5 6 show ?thesis by (intro conjI)
qed

text \<open>
  C9 as stated fails when neither flag is given: with loadable models the
  \<open>ValueError\<close> comes after two model loads, and without \<open>--reverse_model\<close> the
  failure is not the \<open>ValueError\<close>.
\<close>

theorem check_args_neither_counterexample:
  "check_args (\<lambda>p. True) (\<lambda>p. True) neither_args =
     ([RestoreNMT ''reverse.nemo'', RestoreLM (Some ''lm.nemo'')],
      Inl (ValueError ''Neither --srctext nor --cached_score_file were provided.'')) \<and>
   check_args (\<lambda>p. True) (\<lambda>p. True) (neither_args\<lparr>reverse_model := None\<rparr>) =
     ([], Inl (AttributeError ''split''))"
  by (simp add: check_args_def load_models_def neither_args_def split_reverse_model suffix_def)

section \<open>The parallel-rank path resolver\<close>

lemma basename_no_slash: "CHR ''/'' \<notin> set (basename p)"
proof -
  have "\<forall>c \<in> set (takeWhile (\<lambda>c. c \<noteq> CHR ''/'') (rev p)). c \<noteq> CHR ''/''"
    by (auto dest: set_takeWhileD)
  then show ?thesis by (auto simp: basename_def)
qed

lemma basename_after_slash:
  assumes "CHR ''/'' \<notin> set b"
  shows "basename (d @ ''/'' @ b) = b"
proof -
  have "takeWhile (\<lambda>c. c \<noteq> CHR ''/'') (rev b @ CHR ''/'' # rev d)
          = rev b @ takeWhile (\<lambda>c. c \<noteq> CHR ''/'') (CHR ''/'' # rev d)"
    by (rule takeWhile_append2) (use assms in auto)
  then show ?thesis by (simp add: basename_def)
qed

lemma format_rank_0: "format_d 2 0 = ''00''"
  by code_simp

text \<open>
  With tensor parallel size 2 and tensor rank 0 the resolver puts \<open>/mp_rank_00/\<close>
  between the directory and the file name of what the helper returns.
\<close>

lemma inject_with_tensor_parallel_2:
  "inject_with u tensor_parallel_2 p = dirname (u p) @ ''/mp_rank_00/'' @ basename (u p)"
  by (simp add: inject_with_def tensor_parallel_2_def Let_def format_rank_0)

lemma bare_name_parts:
  "dirname ''model_optim_rng.pt'' = []" "basename ''model_optim_rng.pt'' = ''model_optim_rng.pt''"
  by code_simp+

text \<open>
  Whatever helper strips the rank: if it leaves the bare file name alone, then
  resolving that name twice gives the result of resolving it once only if the helper
  turns the absolute path \<open>/mp_rank_00/model_optim_rng.pt\<close> back into a path without
  a directory.
\<close>

lemma inject_with_bare_name:
  assumes "u ''model_optim_rng.pt'' = ''model_optim_rng.pt''"
    and "inject_with u tensor_parallel_2 (inject_with u tensor_parallel_2 ''model_optim_rng.pt'')
           = inject_with u tensor_parallel_2 ''model_optim_rng.pt''"
  shows "dirname (u ''/mp_rank_00/model_optim_rng.pt'') = []"
proof -
  let ?q = "u ''/mp_rank_00/model_optim_rng.pt''"
  have 1: "inject_with u tensor_parallel_2 ''model_optim_rng.pt''
             = ''/mp_rank_00/model_optim_rng.pt''"
    unfolding inject_with_tensor_parallel_2 assms(1) bare_name_parts by simp
  from assms(2) have e: "dirname ?q @ ''/mp_rank_00/'' @ basename ?q
      = [] @ ''/mp_rank_00/'' @ ''model_optim_rng.pt''"
    unfolding 1 unfolding inject_with_tensor_parallel_2 by simp
  have "basename ((dirname ?q @ ''/mp_rank_00'') @ ''/'' @ basename ?q) = basename ?q"
    by (rule basename_after_slash) (rule basename_no_slash)
  moreover have "basename (''/mp_rank_00'' @ ''/'' @ ''model_optim_rng.pt'')
      = ''model_optim_rng.pt''"
    by (rule basename_after_slash) simp
  ultimately have b: "basename ?q = ''model_optim_rng.pt''"
    using e by simp
  from e show ?thesis unfolding b by simp
qed

text \<open>
  C7. With tensor parallel size 2, the bare file name \<open>model_optim_rng.pt\<close> (an empty
  \<open>--checkpoint_folder\<close>) has no directory, so line 371 produces an absolute path
  under the root; resolving that path again strips the rank directory, finds the
  directory \<open>/\<close>, and produces a path with two leading slashes. The second result
  differs from the first.
\<close>

theorem inject_twice_bare_file_name:
  "megatron_lm_inject_model_parallel_rank tensor_parallel_2 ''model_optim_rng.pt''
     = ''/mp_rank_00/model_optim_rng.pt'' \<and>
   megatron_lm_inject_model_parallel_rank tensor_parallel_2 ''/mp_rank_00/model_optim_rng.pt''
     = ''//mp_rank_00/model_optim_rng.pt''"
  by code_simp

text \<open>A path with a directory is resolved to the same path both times.\<close>

lemma inject_twice_in_directory:
  "megatron_lm_inject_model_parallel_rank tensor_parallel_2
     ''/ckpt/iter_0001000/model_optim_rng.pt''
     = ''/ckpt/iter_0001000/mp_rank_00/model_optim_rng.pt'' \<and>
   megatron_lm_inject_model_parallel_rank tensor_parallel_2
     ''/ckpt/iter_0001000/mp_rank_00/model_optim_rng.pt''
     = ''/ckpt/iter_0001000/mp_rank_00/model_optim_rng.pt''"
  by code_simp

end
